theory Spec2Isabelle
  imports Complex_Main "HOL-Library.AList"
begin

section \<open>Camera trap metadata editor: the browser client (static/js/app.js)\<close>

text \<open>
  A shallow embedding of class \<open>CameraTrapApp\<close>. The object's fields and the parts of
  the page it reads and writes form one record; every method is a function from the
  state to the new state. What the server answers and what the clock shows are inputs,
  collected in an environment record. Alerts and requests are appended to a trace kept
  in the state, so that "no request is issued" and "an alert fires" are statements
  about that trace.
\<close>

subsection \<open>Strings\<close>

text \<open>
  JavaScript strings are modelled as \<open>string\<close>, one \<open>char\<close> per code unit, restricted
  to the code units below 256. \<open>String.prototype.trim\<close> removes white space and line
  terminators from both ends; below 256 these are TAB, LF, VT, FF, CR, SPACE and NBSP.
\<close>

definition isWhiteSpace :: "char \<Rightarrow> bool" where
  "isWhiteSpace c =
     (c \<in> set [CHR 0x09, CHR 0x0A, CHR 0x0B, CHR 0x0C, CHR 0x0D, CHR 0x20, CHR 0xA0])"

definition trim :: "string \<Rightarrow> string" where
  "trim s = rev (dropWhile isWhiteSpace (rev (dropWhile isWhiteSpace s)))"

text \<open>
  \<open>toLowerCase\<close> on the letters A to Z. JavaScript also lowers letters outside ASCII;
  none of them becomes an ASCII letter, so the comparison with the three read-only
  names below is not affected.
\<close>

definition toLowerChar :: "char \<Rightarrow> char" where
  "toLowerChar c =
     (case map_of (zip ''ABCDEFGHIJKLMNOPQRSTUVWXYZ'' ''abcdefghijklmnopqrstuvwxyz'') c of
        None \<Rightarrow> c
      | Some d \<Rightarrow> d)"

definition toLowerCase :: "string \<Rightarrow> string" where
  "toLowerCase s = map toLowerChar s"

text \<open>
  A property that may be missing reads as \<open>undefined\<close>: an \<open>option\<close>. In a condition,
  \<open>undefined\<close> and the empty string are false, every other string is true. In a
  template literal \<open>undefined\<close> prints as the word.
\<close>

definition truthy :: "string option \<Rightarrow> bool" where
  "truthy v = (case v of None \<Rightarrow> False | Some x \<Rightarrow> x \<noteq> [])"

definition printed :: "string option \<Rightarrow> string" where
  "printed v = (case v of None \<Rightarrow> ''undefined'' | Some x \<Rightarrow> x)"

text \<open>Decimal digits of a count (\<open>Number.prototype.toString\<close> on a positive integer).\<close>

definition digitChar :: "nat \<Rightarrow> char" where
  "digitChar d = ''0123456789'' ! d"

function natToString :: "nat \<Rightarrow> string" where
  "natToString n =
     (if n < 10 then [digitChar n] else natToString (n div 10) @ [digitChar (n mod 10)])"
  by pat_completeness auto
termination
  by (relation "measure id") auto

declare natToString.simps [simp del]

subsection \<open>Data\<close>

text \<open>
  One child of \<open>metadataContainer\<close>, as \<open>createMetadataField\<close> builds it: the label
  (also the input's \<open>data-field\<close>), the input's value, its \<open>readOnly\<close> flag, and whether
  the row carries a delete button.
\<close>

record field =
  label :: string
  content :: string
  readOnly :: bool
  deleteBtn :: bool

text \<open>
  An object used as a dictionary (\<open>currentMetadata\<close>, the save payload, the footer
  data) is the list of its entries in \<open>Object.entries\<close> order; the values are taken
  to be strings. An object parsed from JSON has each key once.
\<close>

type_synonym dict = "(string \<times> string) list"

record point =
  px :: rat
  py :: rat

text \<open>
  Numbers of the region selector are rationals with exact arithmetic in place of IEEE
  doubles; the three values a division by zero can produce are kept apart.
\<close>

datatype jsnum = Fin rat | PosInf | NegInf | NaN

record rect =
  rx :: jsnum
  ry :: jsnum
  rwidth :: jsnum
  rheight :: jsnum

record box =
  bleft :: rat
  btop :: rat
  bwidth :: rat
  bheight :: rat

datatype request =
    LoadFolder string
  | GetImage int
  | ExtractFooter int
  | SaveMetadata int dict
  | IdentifySpecies int rect

text \<open>
  What the user and the server see of a method: an alert with its text, a request, and
  the save button's confirmation (its reverting after three seconds is not modelled).
\<close>

datatype effect = Alert string | Fetch request | SavedFlash

datatype btnText = IdentifySpeciesText | CancelIdentifyText | IdentifyingText

text \<open>
  A method that can throw returns, with the state, whether it ended normally or threw
  (the message of the error).
\<close>

datatype outcome = Normal | Raised string

text \<open>
  The state. First the fields of the object (\<open>currentIndex\<close> to \<open>currentSelection\<close>);
  then what the methods read and write of the elements of the page: the committed
  folder path, the \<open>hidden\<close> class of four elements, the image and its two captions,
  the rows of the form, the debug text area, the \<open>disabled\<close> flag of five buttons,
  the identify button's \<open>active\<close> class and text, the wrapper's \<open>selecting\<close> class,
  the selection box (\<open>None\<close> when it is not displayed) and the two inputs of the
  add-field dialog. Last, two fields that record the outside world: the alerts shown
  and requests sent so far, oldest first, and the number of times the clock was read.
\<close>

record app =
  currentIndex :: int
  totalImages :: int
  currentMetadata :: dict
  debugBuffer :: string
  isSelecting :: bool
  selectionStart :: "point option"
  currentSelection :: "rect option"
  selectedPath :: string
  mainContentHidden :: bool
  welcomeMessageHidden :: bool
  imageSrc :: "int option"
  imageInfo :: "(string \<times> string) option"
  imageCounter :: "(int \<times> int \<times> string) option"
  metadataContainer :: "field list"
  debugOutput :: string
  firstBtnDisabled :: bool
  prevBtnDisabled :: bool
  nextBtnDisabled :: bool
  lastBtnDisabled :: bool
  identifyBtnDisabled :: bool
  identifyBtnActive :: bool
  identifyBtnText :: btnText
  wrapperSelecting :: bool
  selectionInfoHidden :: bool
  selectionBox :: "box option"
  addFieldModalHidden :: bool
  fieldName :: string
  fieldValue :: string
  trace :: "effect list"
  clockReads :: nat

subsection \<open>The environment\<close>

text \<open>
  \<open>fetch\<close> followed by \<open>response.json()\<close> either throws (the message of the error) or
  yields the parsed reply.
\<close>

datatype 'a response = Failed string | Reply 'a

record folderResult =
  fr_success :: bool
  fr_count :: int
  fr_error :: "string option"

record imageData =
  im_error :: "string option"
  im_dimensions :: string
  im_size_mb :: string
  im_index :: int
  im_total :: int
  im_filename :: string
  im_metadata :: "dict option"

record footerResult =
  fo_success :: bool
  fo_footer_metadata :: "dict option"
  fo_error :: "string option"

record saveResult =
  sv_success :: bool
  sv_error :: "string option"

record identification =
  id_species :: "string option"
  id_count :: "int option"
  id_confidence :: "string option"
  id_scientific_name :: "string option"
  id_habitat :: "string option"
  id_description :: "string option"

record identifyResult =
  ir_success :: bool
  ir_identification :: "identification option"
  ir_error :: "string option"

text \<open>
  The server's answer to each request, and the local time string that the \<open>n\<close>-th
  reading of the clock gives.
\<close>

record env =
  clock :: "nat \<Rightarrow> string"
  loadFolderReply :: "string \<Rightarrow> folderResult response"
  imageReply :: "int \<Rightarrow> imageData response"
  footerReply :: "int \<Rightarrow> footerResult response"
  saveReply :: "int \<Rightarrow> dict \<Rightarrow> saveResult response"
  identifyReply :: "int \<Rightarrow> rect \<Rightarrow> identifyResult response"

subsection \<open>Alerts, requests, the debug log\<close>

definition alert :: "string \<Rightarrow> app \<Rightarrow> app" where
  "alert m s = s\<lparr>trace := trace s @ [Alert m]\<rparr>"

definition fetch :: "request \<Rightarrow> app \<Rightarrow> app" where
  "fetch r s = s\<lparr>trace := trace s @ [Fetch r]\<rparr>"

definition formatMessage :: "string \<Rightarrow> string \<Rightarrow> string" where
  "formatMessage timestamp message = ''['' @ timestamp @ ''] '' @ message @ [CHR 0x0A]"

text \<open>\<open>slice(-n)\<close> on a string longer than \<open>n\<close>: its last \<open>n\<close> code units.\<close>

definition sliceLast :: "nat \<Rightarrow> string \<Rightarrow> string" where
  "sliceLast n b = drop (length b - n) b"

definition addDebugOutput :: "env \<Rightarrow> string \<Rightarrow> app \<Rightarrow> app" where
  "addDebugOutput e message s =
     (let timestamp = clock e (clockReads s);
          formattedMessage = formatMessage timestamp message;
          b = debugBuffer s @ formattedMessage;
          b' = (if length b > 500 then sliceLast 500 b else b)
      in s\<lparr>debugBuffer := b', debugOutput := b', clockReads := clockReads s + 1\<rparr>)"

text \<open>A run of log calls, and the concatenation of the entries it appends.\<close>

definition logAll :: "env \<Rightarrow> string list \<Rightarrow> app \<Rightarrow> app" where
  "logAll e ms s = foldl (\<lambda>t m. addDebugOutput e m t) s ms"

fun timestamped :: "env \<Rightarrow> nat \<Rightarrow> string list \<Rightarrow> string" where
  "timestamped e n [] = []"
| "timestamped e n (m # ms) = formatMessage (clock e n) m @ timestamped e (Suc n) ms"

subsection \<open>Navigation buttons and identify mode\<close>

definition updateNavigationButtons :: "app \<Rightarrow> app" where
  "updateNavigationButtons s =
     s\<lparr>firstBtnDisabled := (currentIndex s = 0),
       prevBtnDisabled := (currentIndex s = 0),
       nextBtnDisabled := (currentIndex s = totalImages s - 1),
       lastBtnDisabled := (currentIndex s = totalImages s - 1)\<rparr>"

definition startIdentifyMode :: "app \<Rightarrow> app" where
  "startIdentifyMode s =
     s\<lparr>isSelecting := True,
       identifyBtnActive := True,
       identifyBtnText := CancelIdentifyText,
       wrapperSelecting := True,
       selectionInfoHidden := False,
       firstBtnDisabled := True,
       prevBtnDisabled := True,
       nextBtnDisabled := True,
       lastBtnDisabled := True\<rparr>"

definition cancelIdentifyMode :: "app \<Rightarrow> app" where
  "cancelIdentifyMode s =
     updateNavigationButtons
       (s\<lparr>isSelecting := False,
          identifyBtnActive := False,
          identifyBtnText := IdentifySpeciesText,
          wrapperSelecting := False,
          selectionInfoHidden := True,
          selectionBox := None,
          currentSelection := None\<rparr>)"

definition toggleIdentifyMode :: "app \<Rightarrow> app" where
  "toggleIdentifyMode s = (if isSelecting s then cancelIdentifyMode s else startIdentifyMode s)"

subsection \<open>The metadata form\<close>

definition readonlyFields :: "string list" where
  "readonlyFields = [''filename'', ''size_mb'', ''dimensions'']"

definition commonFields :: "string list" where
  "commonFields =
     [''Species'', ''Count'', ''Behavior'', ''Weather'', ''Temperature_C'', ''Temperature_F'',
      ''Location'', ''Camera_ID'', ''Researcher'', ''Notes'']"

definition isCommonField :: "string \<Rightarrow> bool" where
  "isCommonField n = (n \<in> set commonFields)"

text \<open>
  Assigning to \<open>value\<close> of an input of type text runs the value sanitization of the
  page: line feeds and carriage returns are stripped.
\<close>

definition sanitize :: "string \<Rightarrow> string" where
  "sanitize v = filter (\<lambda>c. c \<noteq> CHR 0x0A \<and> c \<noteq> CHR 0x0D) v"

definition createMetadataField :: "string \<Rightarrow> string \<Rightarrow> bool \<Rightarrow> app \<Rightarrow> app" where
  "createMetadataField l v readonly s =
     s\<lparr>metadataContainer := metadataContainer s @
         [\<lparr>label = l, content = sanitize v, readOnly = readonly,
           deleteBtn = (\<not> readonly \<and> \<not> isCommonField l)\<rparr>]\<rparr>"

text \<open>
  \<open>obj.hasOwnProperty(k)\<close> looks the method up on the object itself first. A
  dictionary parsed from JSON that has a key of that name holds a value there that is
  not a function, and the call throws a TypeError.
\<close>

definition notAFunction :: string where
  "notAFunction = ''this.currentMetadata.hasOwnProperty is not a function''"

definition hasOwnProperty :: "dict \<Rightarrow> string \<Rightarrow> string + bool" where
  "hasOwnProperty d k =
     (if ''hasOwnProperty'' \<in> fst ` set d then Inl notAFunction
      else Inr (k \<in> fst ` set d))"

text \<open>The two loops of \<open>displayMetadata\<close>.\<close>

fun addExistingFields :: "dict \<Rightarrow> app \<Rightarrow> app" where
  "addExistingFields [] s = s"
| "addExistingFields ((k, v) # kvs) s =
     addExistingFields kvs
       (createMetadataField k v (toLowerCase k \<in> set readonlyFields) s)"

fun addCommonFields :: "string list \<Rightarrow> app \<Rightarrow> outcome \<times> app" where
  "addCommonFields [] s = (Normal, s)"
| "addCommonFields (f # fs) s =
     (case hasOwnProperty (currentMetadata s) f of
        Inl m \<Rightarrow> (Raised m, s)
      | Inr present \<Rightarrow>
          addCommonFields fs (if present then s else createMetadataField f [] False s))"

definition displayMetadata :: "app \<Rightarrow> outcome \<times> app" where
  "displayMetadata s =
     (let s1 = s\<lparr>metadataContainer := []\<rparr>
      in addCommonFields commonFields (addExistingFields (currentMetadata s1) s1))"

text \<open>
  \<open>metadataContainer.querySelector('[data-field="k"]')\<close>: the position of the first
  input whose \<open>data-field\<close> is \<open>k\<close>, if there is one.
\<close>

definition querySelector :: "string \<Rightarrow> app \<Rightarrow> nat option" where
  "querySelector k s =
     (if k \<in> label ` set (metadataContainer s)
      then Some (length (takeWhile (\<lambda>f. label f \<noteq> k) (metadataContainer s)))
      else None)"

definition setInputValue :: "nat \<Rightarrow> string \<Rightarrow> app \<Rightarrow> app" where
  "setInputValue i v s =
     s\<lparr>metadataContainer :=
         (metadataContainer s)[i := (metadataContainer s ! i)\<lparr>content := sanitize v\<rparr>]\<rparr>"

definition showAddFieldModal :: "app \<Rightarrow> app" where
  "showAddFieldModal s = s\<lparr>fieldName := [], fieldValue := [], addFieldModalHidden := False\<rparr>"

definition hideAddFieldModal :: "app \<Rightarrow> app" where
  "hideAddFieldModal s = s\<lparr>addFieldModalHidden := True\<rparr>"

text \<open>
  \<open>addCustomField\<close> runs as a click handler: an exception it throws is not caught,
  and the state is as the handler left it.
\<close>

definition addCustomField :: "app \<Rightarrow> outcome \<times> app" where
  "addCustomField s =
     (let n = trim (fieldName s); v = trim (fieldValue s)
      in if n = [] then (Normal, alert ''Please enter a field name'' s)
         else (case hasOwnProperty (currentMetadata s) n of
                 Inl m \<Rightarrow> (Raised m, s)
               | Inr present \<Rightarrow>
                   if present then (Normal, alert ''A field with this name already exists'' s)
                   else (Normal, hideAddFieldModal (createMetadataField n v False s))))"

text \<open>The click handler of the delete button of the \<open>i\<close>-th row.\<close>

definition clickDelete :: "nat \<Rightarrow> app \<Rightarrow> app" where
  "clickDelete i s =
     (let c = metadataContainer s
      in if i < length c \<and> deleteBtn (c ! i)
         then s\<lparr>metadataContainer := take i c @ drop (Suc i) c,
                currentMetadata := AList.delete (label (c ! i)) (currentMetadata s)\<rparr>
         else s)"

text \<open>
  \<open>metadata[fieldName] = value\<close> on a plain object: a new key is added at the end, an
  existing key keeps its place. The key \<open>__proto__\<close> is the accessor inherited from
  \<open>Object.prototype\<close>, whose setter ignores a string: nothing is stored.
\<close>

definition assign :: "string \<Rightarrow> string \<Rightarrow> dict \<Rightarrow> dict" where
  "assign k v d = (if k = ''__proto__'' then d else AList.update k v d)"

text \<open>The callback that \<open>saveMetadata\<close> runs on each input, and the loop over them.\<close>

definition collectStep :: "dict \<Rightarrow> field \<Rightarrow> dict" where
  "collectStep metadata input =
     (let v = trim (content input)
      in if v \<noteq> [] then assign (label input) v metadata else metadata)"

definition collectMetadata :: "field list \<Rightarrow> dict" where
  "collectMetadata c = foldl collectStep [] (filter (\<lambda>input. \<not> readOnly input) c)"

definition saveMetadata :: "env \<Rightarrow> app \<Rightarrow> app" where
  "saveMetadata e s =
     (let metadata = collectMetadata (metadataContainer s);
          s1 = fetch (SaveMetadata (currentIndex s) metadata) s
      in case saveReply e (currentIndex s) metadata of
           Failed m \<Rightarrow> alert (''Error saving metadata: '' @ m) s1
         | Reply result \<Rightarrow>
             if sv_success result then s1\<lparr>trace := trace s1 @ [SavedFlash]\<rparr>
             else alert (''Failed to save metadata: '' @
                         (if truthy (sv_error result) then printed (sv_error result)
                          else ''Unknown error'')) s1)"

subsection \<open>Loading images and the silent footer extraction\<close>

text \<open>
  The pictographs that open some log lines lie outside the character type and are left
  out of the message texts.
\<close>

fun joinWith :: "string \<Rightarrow> string list \<Rightarrow> string" where
  "joinWith sep [] = []"
| "joinWith sep [x] = x"
| "joinWith sep (x # y # ys) = x @ sep @ joinWith sep (y # ys)"

text \<open>
  One of the three blocks that copy a footer value into the form: taken when the
  footer data holds a true value under \<open>k\<close> and the form has an input for \<open>k\<close>.
\<close>

definition updateFromFooter :: "dict \<Rightarrow> string \<Rightarrow> string list \<times> app \<Rightarrow> string list \<times> app" where
  "updateFromFooter footerData k p =
     (case map_of footerData k of
        None \<Rightarrow> p
      | Some v \<Rightarrow>
          if v = [] then p
          else (case querySelector k (snd p) of
                  None \<Rightarrow> p
                | Some i \<Rightarrow> (fst p @ [k @ '': '' @ v], setInputValue i v (snd p))))"

definition keysOfUndefined :: string where
  "keysOfUndefined = ''Cannot convert undefined or null to object''"

definition extractFooterDataSilent :: "env \<Rightarrow> app \<Rightarrow> app" where
  "extractFooterDataSilent e s =
     (if totalImages s = 0 then s
      else
        let s1 = fetch (ExtractFooter (currentIndex s))
                   (addDebugOutput e ''Extracting footer metadata...'' s)
        in case footerReply e (currentIndex s) of
             Failed m \<Rightarrow> addDebugOutput e (''Error extracting footer data: '' @ m) s1
           | Reply result \<Rightarrow>
               if fo_success result then
                 (case fo_footer_metadata result of
                    None \<Rightarrow>
                      addDebugOutput e (''Error extracting footer data: '' @ keysOfUndefined) s1
                  | Some footerData \<Rightarrow>
                      if footerData \<noteq> [] then
                        let p = updateFromFooter footerData ''Camera_ID''
                                  (updateFromFooter footerData ''Temperature_F''
                                    (updateFromFooter footerData ''Temperature_C'' ([], s1)));
                            s2 = (if truthy (map_of footerData ''DateTime'')
                                  then addDebugOutput e
                                         (''DateTime: '' @ printed (map_of footerData ''DateTime''))
                                         (snd p)
                                  else snd p)
                        in if fst p \<noteq> []
                           then addDebugOutput e (''Extracted: '' @ joinWith '', '' (fst p)) s2
                           else addDebugOutput e
                                  ''Footer data extracted but no matching fields found'' s2
                      else addDebugOutput e ''No footer data could be extracted'' s1)
               else addDebugOutput e
                      (''Footer extraction failed: '' @ printed (fo_error result)) s1)"

text \<open>
  \<open>loadCurrentImage\<close>. The image element's source is kept as the index it asks for
  (the cache-busting query is not modelled), the two captions as the data they print.
\<close>

definition loadCurrentImage :: "env \<Rightarrow> app \<Rightarrow> app" where
  "loadCurrentImage e s =
     (let s1 = fetch (GetImage (currentIndex s)) s
      in case imageReply e (currentIndex s) of
           Failed m \<Rightarrow>
             alert (''Error loading image: '' @ m)
               (addDebugOutput e (''Error loading image: '' @ m) s1)
         | Reply d \<Rightarrow>
             if truthy (im_error d)
             then alert (''Error loading image: '' @ printed (im_error d)) s1
             else
               let s2 = updateNavigationButtons
                          (s1\<lparr>imageSrc := Some (currentIndex s1),
                              imageInfo := Some (im_dimensions d, im_size_mb d),
                              imageCounter := Some (im_index d + 1, im_total d, im_filename d)\<rparr>);
                   s3 = s2\<lparr>currentMetadata :=
                              (case im_metadata d of None \<Rightarrow> [] | Some m \<Rightarrow> m)\<rparr>
               in case displayMetadata s3 of
                    (Raised m, s4) \<Rightarrow>
                      alert (''Error loading image: '' @ m)
                        (addDebugOutput e (''Error loading image: '' @ m) s4)
                  | (Normal, s4) \<Rightarrow>
                      if \<not> truthy (map_of (currentMetadata s4) ''Temperature_C'')
                         \<or> \<not> truthy (map_of (currentMetadata s4) ''Temperature_F'')
                         \<or> \<not> truthy (map_of (currentMetadata s4) ''Camera_ID'')
                      then extractFooterDataSilent e
                             (addDebugOutput e ''Missing metadata - extracting footer data...''
                               (addDebugOutput e (''Loading image '' @ im_filename d) s4))
                      else addDebugOutput e
                             (''Image '' @ im_filename d @ '' loaded - metadata complete'') s4)"

definition navigateToImage :: "env \<Rightarrow> int \<Rightarrow> app \<Rightarrow> app" where
  "navigateToImage e i s =
     (if i < 0 \<or> i \<ge> totalImages s then s
      else loadCurrentImage e (s\<lparr>currentIndex := i\<rparr>))"

subsection \<open>Loading a folder\<close>

definition resetInterface :: "app \<Rightarrow> app" where
  "resetInterface s =
     (cancelIdentifyMode
        (s\<lparr>imageSrc := None, imageInfo := None, imageCounter := None,
           metadataContainer := []\<rparr>))
     \<lparr>currentIndex := 0, totalImages := 0, currentMetadata := [],
      firstBtnDisabled := True, prevBtnDisabled := True,
      nextBtnDisabled := True, lastBtnDisabled := True\<rparr>"

definition showMainContent :: "app \<Rightarrow> app" where
  "showMainContent s = s\<lparr>welcomeMessageHidden := True, mainContentHidden := False\<rparr>"

definition loadFolder :: "env \<Rightarrow> app \<Rightarrow> app" where
  "loadFolder e s =
     (let folderPath = selectedPath s
      in if folderPath = [] \<or> folderPath = ''No folder selected''
         then alert ''Please select a folder first'' s
         else
           let s1 = fetch (LoadFolder folderPath) (resetInterface s)
           in case loadFolderReply e folderPath of
                Failed m \<Rightarrow> alert (''Error: '' @ m) s1
              | Reply result \<Rightarrow>
                  if fr_success result then
                    let s2 = s1\<lparr>totalImages := fr_count result, currentIndex := 0,
                                 currentMetadata := []\<rparr>
                    in if totalImages s2 > 0
                       then loadCurrentImage e (showMainContent s2)
                       else alert ''No supported image files found in the selected folder.'' s2
                  else alert (''Error loading folder: '' @ printed (fr_error result)) s1)"

text \<open>
  The folder browser is not modelled beyond its result: \<open>selectCurrentFolder\<close> copies
  the highlighted path, when there is one, into the committed path.
\<close>

definition selectCurrentFolder :: "string \<Rightarrow> app \<Rightarrow> app" where
  "selectCurrentFolder selectedFolderPath s =
     (if selectedFolderPath \<noteq> [] then s\<lparr>selectedPath := selectedFolderPath\<rparr> else s)"

subsection \<open>Identification\<close>

definition propertyOfUndefined :: string where
  "propertyOfUndefined = ''Cannot read properties of undefined''"

definition identificationSummary :: "identification \<Rightarrow> string" where
  "identificationSummary r =
     ''Species identification complete!'' @ [CHR 0x0A, CHR 0x0A] @
     ''Species: '' @ printed (id_species r) @ [CHR 0x0A] @
     ''Confidence: '' @ printed (id_confidence r) @ [CHR 0x0A, CHR 0x0A] @
     ''Metadata has been updated. Don't forget to save your changes.''"

text \<open>
  \<open>handleIdentificationResult\<close>, block by block: the species input, the count input,
  the three fields added when the reply has a value for them, and the note.
\<close>

definition updateSpecies :: "identification \<Rightarrow> app \<Rightarrow> app" where
  "updateSpecies i s =
     (case querySelector ''Species'' s of
        None \<Rightarrow> s
      | Some n \<Rightarrow>
          if truthy (id_species i) \<and> id_species i \<noteq> Some ''Unknown''
          then setInputValue n (printed (id_species i)) s else s)"

definition updateCount :: "identification \<Rightarrow> app \<Rightarrow> app" where
  "updateCount i s =
     (case querySelector ''Count'' s of
        None \<Rightarrow> s
      | Some n \<Rightarrow>
          (case id_count i of
             None \<Rightarrow> s
           | Some c \<Rightarrow> if c > 0 then setInputValue n (natToString (nat c)) s else s))"

definition addIfGiven :: "string \<Rightarrow> string option \<Rightarrow> app \<Rightarrow> app" where
  "addIfGiven l v s = (if truthy v then createMetadataField l (printed v) False s else s)"

definition appendNotes :: "identification \<Rightarrow> app \<Rightarrow> app" where
  "appendNotes i s =
     (if truthy (id_description i)
      then (case querySelector ''Notes'' s of
              None \<Rightarrow> s
            | Some n \<Rightarrow>
                let existingNotes = trim (content (metadataContainer s ! n));
                    aiNote = ''AI (Namibia): '' @ printed (id_description i)
                in setInputValue n
                     (if existingNotes \<noteq> [] then existingNotes @ [CHR 0x0A] @ aiNote
                      else aiNote) s)
      else s)"

text \<open>
  A reply without an \<open>identification\<close> makes the first property read throw, before
  anything is written.
\<close>

definition handleIdentificationResult :: "identification option \<Rightarrow> app \<Rightarrow> outcome \<times> app" where
  "handleIdentificationResult r s =
     (case r of
        None \<Rightarrow> (Raised propertyOfUndefined, s)
      | Some i \<Rightarrow>
          (Normal,
           alert (identificationSummary i)
             (appendNotes i
               (addIfGiven ''Habitat'' (id_habitat i)
                 (addIfGiven ''Scientific_Name'' (id_scientific_name i)
                   (addIfGiven ''AI_Confidence'' (id_confidence i)
                     (updateCount i (updateSpecies i s))))))))"

text \<open>
  \<open>identifySpecies\<close>: the \<open>try\<close> block with its \<open>catch\<close>, then the \<open>finally\<close>
  block.
\<close>

definition tryIdentify :: "env \<Rightarrow> rect \<Rightarrow> app \<Rightarrow> app" where
  "tryIdentify e sel s =
     (let s1 = fetch (IdentifySpecies (currentIndex s) sel) s
      in case identifyReply e (currentIndex s) sel of
           Failed m \<Rightarrow> alert (''Error during identification: '' @ m) s1
         | Reply result \<Rightarrow>
             if ir_success result then
               (case handleIdentificationResult (ir_identification result) s1 of
                  (Normal, t) \<Rightarrow> t
                | (Raised m, t) \<Rightarrow> alert (''Error during identification: '' @ m) t)
             else alert (''Identification failed: '' @ printed (ir_error result)) s1)"

definition identifySpecies :: "env \<Rightarrow> app \<Rightarrow> app" where
  "identifySpecies e s =
     (case currentSelection s of
        None \<Rightarrow> s
      | Some sel \<Rightarrow>
          let s1 = s\<lparr>identifyBtnText := IdentifyingText, identifyBtnDisabled := True\<rparr>;
              s2 = tryIdentify e sel s1
          in cancelIdentifyMode (s2\<lparr>identifyBtnDisabled := False\<rparr>))"

subsection \<open>The region selector\<close>

text \<open>
  What the pointer event and the page layout supply: the pointer's client position,
  the left and top of the two bounding rectangles, and the image's natural and
  displayed sizes.
\<close>

record mouse =
  clientX :: rat
  clientY :: rat

record layout =
  wrapperLeft :: rat
  wrapperTop :: rat
  imageRectLeft :: rat
  imageRectTop :: rat
  naturalWidth :: rat
  naturalHeight :: rat
  clientWidth :: rat
  clientHeight :: rat

text \<open>Division, multiplication and \<open>Math.max(0, _)\<close> with the values beyond the finite.\<close>

definition jsDivide :: "rat \<Rightarrow> rat \<Rightarrow> jsnum" where
  "jsDivide a b =
     (if b \<noteq> 0 then Fin (a / b)
      else if a > 0 then PosInf else if a < 0 then NegInf else NaN)"

definition jsTimes :: "rat \<Rightarrow> jsnum \<Rightarrow> jsnum" where
  "jsTimes a x =
     (case x of
        Fin b \<Rightarrow> Fin (a * b)
      | PosInf \<Rightarrow> (if a > 0 then PosInf else if a < 0 then NegInf else NaN)
      | NegInf \<Rightarrow> (if a > 0 then NegInf else if a < 0 then PosInf else NaN)
      | NaN \<Rightarrow> NaN)"

definition jsMaxZero :: "jsnum \<Rightarrow> jsnum" where
  "jsMaxZero x = (case x of Fin b \<Rightarrow> Fin (max 0 b) | PosInf \<Rightarrow> PosInf | NegInf \<Rightarrow> Fin 0 | NaN \<Rightarrow> NaN)"

definition startSelection :: "layout \<Rightarrow> mouse \<Rightarrow> app \<Rightarrow> app" where
  "startSelection lay ev s =
     (if \<not> isSelecting s then s
      else
        let start = \<lparr>px = clientX ev - wrapperLeft lay, py = clientY ev - wrapperTop lay\<rparr>
        in s\<lparr>selectionStart := Some start,
              selectionBox := Some \<lparr>bleft = px start, btop = py start, bwidth = 0, bheight = 0\<rparr>\<rparr>)"

text \<open>
  \<open>updateSelection\<close> writes the box's geometry only; a box that is not displayed
  (\<open>None\<close>) stays so, and its geometry is rewritten by the next \<open>startSelection\<close>
  before it shows again.
\<close>

definition updateSelection :: "layout \<Rightarrow> mouse \<Rightarrow> app \<Rightarrow> app" where
  "updateSelection lay ev s =
     (case selectionStart s of
        None \<Rightarrow> s
      | Some start \<Rightarrow>
          if \<not> isSelecting s then s
          else
            let currentX = clientX ev - wrapperLeft lay;
                currentY = clientY ev - wrapperTop lay
            in (case selectionBox s of
                  None \<Rightarrow> s
                | Some b \<Rightarrow>
                    s\<lparr>selectionBox := Some
                        \<lparr>bleft = min (px start) currentX, btop = min (py start) currentY,
                         bwidth = \<bar>currentX - px start\<bar>, bheight = \<bar>currentY - py start\<bar>\<rparr>\<rparr>))"

definition endSelection :: "env \<Rightarrow> layout \<Rightarrow> mouse \<Rightarrow> app \<Rightarrow> app" where
  "endSelection e lay ev s =
     (case selectionStart s of
        None \<Rightarrow> s
      | Some start \<Rightarrow>
          if \<not> isSelecting s then s
          else
            let currentX = clientX ev - wrapperLeft lay;
                currentY = clientY ev - wrapperTop lay;
                selectionWidth = \<bar>currentX - px start\<bar>;
                selectionHeight = \<bar>currentY - py start\<bar>
            in if selectionWidth < 20 \<or> selectionHeight < 20 then cancelIdentifyMode s
               else
                 let imageLeft = imageRectLeft lay - wrapperLeft lay;
                     imageTop = imageRectTop lay - wrapperTop lay;
                     selectionLeft = min (px start) currentX - imageLeft;
                     selectionTop = min (py start) currentY - imageTop;
                     scaleX = jsDivide (naturalWidth lay) (clientWidth lay);
                     scaleY = jsDivide (naturalHeight lay) (clientHeight lay)
                 in identifySpecies e
                      (s\<lparr>currentSelection := Some
                          \<lparr>rx = jsMaxZero (jsTimes selectionLeft scaleX),
                           ry = jsMaxZero (jsTimes selectionTop scaleY),
                           rwidth = jsTimes selectionWidth scaleX,
                           rheight = jsTimes selectionHeight scaleY\<rparr>\<rparr>))"

subsection \<open>Events\<close>

datatype key = ArrowLeft | ArrowRight | HomeKey | EndKey | EscapeKey | OtherKey

definition keydown :: "env \<Rightarrow> key \<Rightarrow> app \<Rightarrow> app" where
  "keydown e k s =
     (if totalImages s = 0 \<or> isSelecting s then s
      else (case k of
              ArrowLeft \<Rightarrow> navigateToImage e (currentIndex s - 1) s
            | ArrowRight \<Rightarrow> navigateToImage e (currentIndex s + 1) s
            | HomeKey \<Rightarrow> navigateToImage e 0 s
            | EndKey \<Rightarrow> navigateToImage e (totalImages s - 1) s
            | EscapeKey \<Rightarrow> (if isSelecting s then cancelIdentifyMode s else s)
            | OtherKey \<Rightarrow> s))"

text \<open>
  The handlers that \<open>bindEvents\<close> and \<open>createMetadataField\<close> install, and the user's
  typing into the dialog and into a row of the form.
\<close>

datatype event =
    ClickLoadFolder
  | ClickSelectFolder string
  | ClickFirst | ClickPrev | ClickNext | ClickLast
  | ClickIdentify
  | KeyDown key
  | MouseDown layout mouse
  | MouseMove layout mouse
  | MouseUp layout mouse
  | ClickCancelSelection
  | ClickAddField
  | ClickSave
  | ClickAddFieldConfirm
  | ClickAddFieldCancel
  | ClickDelete nat
  | TypeFieldName string
  | TypeFieldValue string
  | TypeInput nat string

definition typeInput :: "nat \<Rightarrow> string \<Rightarrow> app \<Rightarrow> app" where
  "typeInput i v s =
     (if i < length (metadataContainer s) \<and> \<not> readOnly (metadataContainer s ! i)
      then setInputValue i v s else s)"

fun handle :: "env \<Rightarrow> event \<Rightarrow> app \<Rightarrow> app" where
  "handle e ClickLoadFolder s = loadFolder e s"
| "handle e (ClickSelectFolder p) s = selectCurrentFolder p s"
| "handle e ClickFirst s = navigateToImage e 0 s"
| "handle e ClickPrev s = navigateToImage e (currentIndex s - 1) s"
| "handle e ClickNext s = navigateToImage e (currentIndex s + 1) s"
| "handle e ClickLast s = navigateToImage e (totalImages s - 1) s"
| "handle e ClickIdentify s = toggleIdentifyMode s"
| "handle e (KeyDown k) s = keydown e k s"
| "handle e (MouseDown lay ev) s = startSelection lay ev s"
| "handle e (MouseMove lay ev) s = updateSelection lay ev s"
| "handle e (MouseUp lay ev) s = endSelection e lay ev s"
| "handle e ClickCancelSelection s = cancelIdentifyMode s"
| "handle e ClickAddField s = showAddFieldModal s"
| "handle e ClickSave s = saveMetadata e s"
| "handle e ClickAddFieldConfirm s = snd (addCustomField s)"
| "handle e ClickAddFieldCancel s = hideAddFieldModal s"
| "handle e (ClickDelete i) s = clickDelete i s"
| "handle e (TypeFieldName v) s = s\<lparr>fieldName := v\<rparr>"
| "handle e (TypeFieldValue v) s = s\<lparr>fieldValue := v\<rparr>"
| "handle e (TypeInput i v) s = typeInput i v s"

text \<open>
  Modelled from the spec: the page's markup, which is not among the sources. The
  fields of the object are set as the constructor and \<open>initializeElements\<close> set them.
  For the elements of the page the state is the one the specification describes for a
  page just opened: the welcome view showing, the main content and the add-field
  dialog hidden, identify mode off, every button enabled, nothing rendered, and no
  folder selected (the text that \<open>loadFolder\<close> compares with).
\<close>

definition initial :: app where
  "initial =
     \<lparr>currentIndex = 0, totalImages = 0, currentMetadata = [], debugBuffer = [],
      isSelecting = False, selectionStart = None, currentSelection = None,
      selectedPath = ''No folder selected'',
      mainContentHidden = True, welcomeMessageHidden = False,
      imageSrc = None, imageInfo = None, imageCounter = None,
      metadataContainer = [], debugOutput = [],
      firstBtnDisabled = False, prevBtnDisabled = False,
      nextBtnDisabled = False, lastBtnDisabled = False,
      identifyBtnDisabled = False, identifyBtnActive = False,
      identifyBtnText = IdentifySpeciesText,
      wrapperSelecting = False, selectionInfoHidden = True, selectionBox = None,
      addFieldModalHidden = True, fieldName = [], fieldValue = [],
      trace = [], clockReads = 0\<rparr>"

subsection \<open>Notions used in the theorems\<close>

text \<open>What was appended to the trace between an earlier state and a later one.\<close>

definition emitted :: "app \<Rightarrow> app \<Rightarrow> effect list" where
  "emitted s t = drop (length (trace s)) (trace t)"

text \<open>
  The row for an entry of the metadata, and the row for a common field that the
  metadata lacks, written out as the specification describes them; the theorems below
  compare \<open>displayMetadata\<close> with them.
\<close>

definition existingRow :: "string \<times> string \<Rightarrow> field" where
  "existingRow kv =
     \<lparr>label = fst kv, content = sanitize (snd kv),
      readOnly = (toLowerCase (fst kv) \<in> set readonlyFields),
      deleteBtn = (toLowerCase (fst kv) \<notin> set readonlyFields \<and> \<not> isCommonField (fst kv))\<rparr>"

definition emptyRow :: "string \<Rightarrow> field" where
  "emptyRow k = \<lparr>label = k, content = [], readOnly = False, deleteBtn = False\<rparr>"

text \<open>
  The region selector at rest, as \<open>cancelIdentifyMode\<close> leaves it, and the four
  navigation buttons as \<open>updateNavigationButtons\<close> sets them from the position.
\<close>

definition idle :: "app \<Rightarrow> bool" where
  "idle s =
     (\<not> isSelecting s \<and> currentSelection s = None \<and> selectionBox s = None \<and>
      selectionInfoHidden s \<and> \<not> wrapperSelecting s \<and> \<not> identifyBtnActive s \<and>
      identifyBtnText s = IdentifySpeciesText)"

definition navigationByPosition :: "app \<Rightarrow> bool" where
  "navigationByPosition s =
     (firstBtnDisabled s = (currentIndex s = 0) \<and>
      prevBtnDisabled s = (currentIndex s = 0) \<and>
      nextBtnDisabled s = (currentIndex s = totalImages s - 1) \<and>
      lastBtnDisabled s = (currentIndex s = totalImages s - 1))"


text \<open>
  The events whose handlers load an image or a folder, and the relation between two
  states that differ at most in the rows of the form and in the trace.
\<close>

fun loadsImages :: "event \<Rightarrow> bool" where
  "loadsImages ClickLoadFolder = True"
| "loadsImages ClickFirst = True"
| "loadsImages ClickPrev = True"
| "loadsImages ClickNext = True"
| "loadsImages ClickLast = True"
| "loadsImages (KeyDown k) = (k = ArrowLeft \<or> k = ArrowRight \<or> k = HomeKey \<or> k = EndKey)"
| "loadsImages ev = False"

definition formOnly :: "app \<Rightarrow> app \<Rightarrow> bool" where
  "formOnly s t = (\<exists>c tr. t = s\<lparr>metadataContainer := c, trace := tr\<rparr>)"

subsection \<open>Inputs for the examples\<close>

text \<open>A server that is not reachable, at noon.\<close>

definition offline :: env where
  "offline =
     \<lparr>clock = (\<lambda>n. ''12:00:00''),
      loadFolderReply = (\<lambda>p. Failed ''Failed to fetch''),
      imageReply = (\<lambda>i. Failed ''Failed to fetch''),
      footerReply = (\<lambda>i. Failed ''Failed to fetch''),
      saveReply = (\<lambda>i m. Failed ''Failed to fetch''),
      identifyReply = (\<lambda>i r. Failed ''Failed to fetch'')\<rparr>"

text \<open>
  A server with two images under \<open>/photos\<close> and none elsewhere. Every image carries the
  species only, the footer gives a temperature, every save succeeds, and every
  identification finds two kudu.
\<close>

definition server :: env where
  "server =
     \<lparr>clock = (\<lambda>n. ''12:00:00''),
      loadFolderReply = (\<lambda>p. Reply \<lparr>fr_success = True,
                                       fr_count = (if p = ''/photos'' then 2 else 0),
                                       fr_error = None\<rparr>),
      imageReply = (\<lambda>i. Reply \<lparr>im_error = None, im_dimensions = ''1920x1080'',
                                  im_size_mb = ''1.5'', im_index = i, im_total = 2,
                                  im_filename = ''IMG_0001.JPG'',
                                  im_metadata = Some [(''Species'', ''Kudu'')]\<rparr>),
      footerReply = (\<lambda>i. Reply \<lparr>fo_success = True,
                                   fo_footer_metadata = Some [(''Temperature_C'', ''21'')],
                                   fo_error = None\<rparr>),
      saveReply = (\<lambda>i m. Reply \<lparr>sv_success = True, sv_error = None\<rparr>),
      identifyReply = (\<lambda>i r. Reply \<lparr>ir_success = True,
                                       ir_identification = Some
                                         \<lparr>id_species = Some ''Kudu'', id_count = Some 2,
                                          id_confidence = Some ''0.93'',
                                          id_scientific_name = Some ''Tragelaphus strepsiceros'',
                                          id_habitat = None,
                                          id_description = Some ''Two adults''\<rparr>,
                                       ir_error = None\<rparr>)\<rparr>"

text \<open>
  The same server, but every image already carries the three footer keys, the first of
  them with an empty value; and the same server, but every image carries a single
  field, named \<open>hasOwnProperty\<close>.
\<close>

definition coldServer :: env where
  "coldServer = server\<lparr>imageReply := (\<lambda>i. Reply
      \<lparr>im_error = None, im_dimensions = ''1920x1080'', im_size_mb = ''1.5'', im_index = i,
       im_total = 2, im_filename = ''IMG_0002.JPG'',
       im_metadata = Some [(''Temperature_C'', []), (''Temperature_F'', ''70''),
                           (''Camera_ID'', ''CAM1'')]\<rparr>)\<rparr>"

definition shadowServer :: env where
  "shadowServer = server\<lparr>imageReply := (\<lambda>i. Reply
      \<lparr>im_error = None, im_dimensions = ''1920x1080'', im_size_mb = ''1.5'', im_index = i,
       im_total = 2, im_filename = ''IMG_0003.JPG'',
       im_metadata = Some [(''hasOwnProperty'', ''x'')]\<rparr>)\<rparr>"


definition picked :: rect where
  "picked = \<lparr>rx = Fin 20, ry = Fin 20, rwidth = Fin 60, rheight = Fin 80\<rparr>"



text \<open>
  The state after an image without metadata was rendered: the ten common fields,
  empty. Then the add-field dialog is opened and filled in; \<open>dialogFilled\<close> has the name
  of a common field in it, \<open>trailOnce\<close> is the state after a field named Trail was
  added, and \<open>trailTwice\<close> the state after the same was done a second time.
\<close>

definition rendered :: app where
  "rendered = snd (displayMetadata initial)"

definition fillDialog :: "string \<Rightarrow> string \<Rightarrow> app \<Rightarrow> app" where
  "fillDialog n v s = (showAddFieldModal s)\<lparr>fieldName := n, fieldValue := v\<rparr>"

definition dialogFilled :: app where
  "dialogFilled = fillDialog ''Species'' ''Kudu'' rendered"

definition trailOnce :: app where
  "trailOnce = snd (addCustomField (fillDialog ''Trail'' ''north'' rendered))"

definition trailTwice :: app where
  "trailTwice = snd (addCustomField (fillDialog ''Trail'' ''north'' trailOnce))"

section \<open>The debug log\<close>

lemma sliceLast_append: "sliceLast k (sliceLast k a @ b) = sliceLast k (a @ b)"
proof (cases "k \<le> length a")
  case True
  then show ?thesis by (simp add: sliceLast_def add.commute)
next
  case False
  then show ?thesis by (simp add: sliceLast_def)
qed

lemma addDebugOutput_buffer:
  "debugBuffer (addDebugOutput e m s) =
     sliceLast 500 (debugBuffer s @ formatMessage (clock e (clockReads s)) m)"
  by (simp add: addDebugOutput_def Let_def sliceLast_def)

lemma addDebugOutput_clockReads: "clockReads (addDebugOutput e m s) = Suc (clockReads s)"
  by (simp add: addDebugOutput_def Let_def)

lemma logAll_buffer:
  "sliceLast 500 (debugBuffer s) = debugBuffer s \<Longrightarrow>
   debugBuffer (logAll e ms s) =
     sliceLast 500 (debugBuffer s @ timestamped e (clockReads s) ms)"
proof (induction ms arbitrary: s)
  case Nil
  then show ?case by (simp add: logAll_def)
next
  case (Cons m ms)
  let ?s1 = "addDebugOutput e m s"
  have idem: "sliceLast 500 (debugBuffer ?s1) = debugBuffer ?s1"
    by (simp add: addDebugOutput_buffer sliceLast_def)
  have "debugBuffer (logAll e (m # ms) s) = debugBuffer (logAll e ms ?s1)"
    by (simp add: logAll_def)
  also have "\<dots> = sliceLast 500 (debugBuffer ?s1 @ timestamped e (clockReads ?s1) ms)"
    by (rule Cons.IH [OF idem])
  also have "\<dots> = sliceLast 500 (debugBuffer s @ timestamped e (clockReads s) (m # ms))"
    by (simp add: addDebugOutput_buffer addDebugOutput_clockReads sliceLast_append)
  finally show ?case .
qed

text \<open>
  Claim C6. Start from an empty debug buffer and append any sequence of messages. Let
  \<open>c\<close> be the concatenation of the timestamped entries. If \<open>c\<close> is longer than 500
  characters the buffer is exactly the last 500 characters of \<open>c\<close> (the front is
  dropped); otherwise the buffer is \<open>c\<close>.
\<close>

theorem debug_buffer_keeps_last_500:
  "debugBuffer s = [] \<Longrightarrow>
   debugBuffer (logAll e ms s) =
     (let c = timestamped e (clockReads s) ms
      in if length c > 500 then drop (length c - 500) c else c)"
  using logAll_buffer [of s e ms] by (simp add: sliceLast_def Let_def)

theorem debug_buffer_keeps_last_500_witness:
  "debugBuffer initial = [] \<and>
   debugBuffer (logAll offline [''Loading image a.jpg'', ''ok''] initial) =
     ''[12:00:00] Loading image a.jpg'' @ [CHR 0x0A] @ ''[12:00:00] ok'' @ [CHR 0x0A]"
  using debug_buffer_keeps_last_500 [of initial offline "[''Loading image a.jpg'', ''ok'']"]
  by (simp add: initial_def offline_def formatMessage_def Let_def)

section \<open>What each step leaves unchanged\<close>

lemma addDebugOutput_frame [simp]:
  "currentIndex (addDebugOutput e m s) = currentIndex s"
  "totalImages (addDebugOutput e m s) = totalImages s"
  "currentMetadata (addDebugOutput e m s) = currentMetadata s"
  "metadataContainer (addDebugOutput e m s) = metadataContainer s"
  "mainContentHidden (addDebugOutput e m s) = mainContentHidden s"
  "welcomeMessageHidden (addDebugOutput e m s) = welcomeMessageHidden s"
  "trace (addDebugOutput e m s) = trace s"
  by (simp_all add: addDebugOutput_def Let_def)

lemma alert_frame [simp]:
  "currentIndex (alert m s) = currentIndex s"
  "totalImages (alert m s) = totalImages s"
  "currentMetadata (alert m s) = currentMetadata s"
  "metadataContainer (alert m s) = metadataContainer s"
  "mainContentHidden (alert m s) = mainContentHidden s"
  "welcomeMessageHidden (alert m s) = welcomeMessageHidden s"
  "trace (alert m s) = trace s @ [Alert m]"
  by (simp_all add: alert_def)

lemma fetch_frame [simp]:
  "currentIndex (fetch r s) = currentIndex s"
  "totalImages (fetch r s) = totalImages s"
  "currentMetadata (fetch r s) = currentMetadata s"
  "metadataContainer (fetch r s) = metadataContainer s"
  "mainContentHidden (fetch r s) = mainContentHidden s"
  "welcomeMessageHidden (fetch r s) = welcomeMessageHidden s"
  "trace (fetch r s) = trace s @ [Fetch r]"
  by (simp_all add: fetch_def)

lemma setInputValue_frame [simp]:
  "currentIndex (setInputValue i v s) = currentIndex s"
  "totalImages (setInputValue i v s) = totalImages s"
  "currentMetadata (setInputValue i v s) = currentMetadata s"
  "mainContentHidden (setInputValue i v s) = mainContentHidden s"
  "welcomeMessageHidden (setInputValue i v s) = welcomeMessageHidden s"
  "trace (setInputValue i v s) = trace s"
  by (simp_all add: setInputValue_def)

lemma createMetadataField_frame [simp]:
  "currentIndex (createMetadataField l v r s) = currentIndex s"
  "totalImages (createMetadataField l v r s) = totalImages s"
  "currentMetadata (createMetadataField l v r s) = currentMetadata s"
  "mainContentHidden (createMetadataField l v r s) = mainContentHidden s"
  "welcomeMessageHidden (createMetadataField l v r s) = welcomeMessageHidden s"
  "trace (createMetadataField l v r s) = trace s"
  by (simp_all add: createMetadataField_def)

lemma updateFromFooter_frame [simp]:
  "currentIndex (snd (updateFromFooter d k p)) = currentIndex (snd p)"
  "totalImages (snd (updateFromFooter d k p)) = totalImages (snd p)"
  "currentMetadata (snd (updateFromFooter d k p)) = currentMetadata (snd p)"
  "mainContentHidden (snd (updateFromFooter d k p)) = mainContentHidden (snd p)"
  "welcomeMessageHidden (snd (updateFromFooter d k p)) = welcomeMessageHidden (snd p)"
  "trace (snd (updateFromFooter d k p)) = trace (snd p)"
  by (simp_all add: updateFromFooter_def split: option.splits)

lemma extractFooterDataSilent_frame [simp]:
  "currentIndex (extractFooterDataSilent e s) = currentIndex s"
  "totalImages (extractFooterDataSilent e s) = totalImages s"
  "currentMetadata (extractFooterDataSilent e s) = currentMetadata s"
  "mainContentHidden (extractFooterDataSilent e s) = mainContentHidden s"
  "welcomeMessageHidden (extractFooterDataSilent e s) = welcomeMessageHidden s"
  by (simp_all add: extractFooterDataSilent_def Let_def split: response.splits option.splits)

lemma extractFooterDataSilent_trace:
  "trace (extractFooterDataSilent e s) =
     trace s @ (if totalImages s = 0 then [] else [Fetch (ExtractFooter (currentIndex s))])"
  by (simp add: extractFooterDataSilent_def Let_def split: response.splits option.splits)

section \<open>Rendering the form\<close>

lemma addExistingFields_eq:
  "addExistingFields kvs s =
     s\<lparr>metadataContainer := metadataContainer s @ map existingRow kvs\<rparr>"
  by (induction kvs s rule: addExistingFields.induct)
     (simp_all add: createMetadataField_def existingRow_def)

lemma addCommonFields_eq:
  "''hasOwnProperty'' \<notin> fst ` set (currentMetadata s) \<Longrightarrow> set fs \<subseteq> set commonFields \<Longrightarrow>
   addCommonFields fs s =
     (Normal, s\<lparr>metadataContainer := metadataContainer s @
        map emptyRow (filter (\<lambda>f. f \<notin> fst ` set (currentMetadata s)) fs)\<rparr>)"
  by (induction fs arbitrary: s)
     (simp_all add: hasOwnProperty_def createMetadataField_def emptyRow_def isCommonField_def
        sanitize_def)

lemma addCommonFields_raises:
  "''hasOwnProperty'' \<in> fst ` set (currentMetadata s) \<Longrightarrow> fs \<noteq> [] \<Longrightarrow>
   addCommonFields fs s = (Raised notAFunction, s)"
  by (cases fs) (simp_all add: hasOwnProperty_def)

lemma commonFields_nonempty: "commonFields \<noteq> []"
  by (simp add: commonFields_def)

lemma displayMetadata_eq:
  "displayMetadata s =
     (if ''hasOwnProperty'' \<in> fst ` set (currentMetadata s)
      then (Raised notAFunction, s\<lparr>metadataContainer := map existingRow (currentMetadata s)\<rparr>)
      else (Normal, s\<lparr>metadataContainer := map existingRow (currentMetadata s) @
              map emptyRow (filter (\<lambda>f. f \<notin> fst ` set (currentMetadata s)) commonFields)\<rparr>))"
proof -
  let ?t = "addExistingFields (currentMetadata s) (s\<lparr>metadataContainer := []\<rparr>)"
  have t: "?t = s\<lparr>metadataContainer := map existingRow (currentMetadata s)\<rparr>"
    by (simp add: addExistingFields_eq)
  have d: "displayMetadata s = addCommonFields commonFields ?t"
    by (simp add: displayMetadata_def Let_def)
  show ?thesis
  proof (cases "''hasOwnProperty'' \<in> fst ` set (currentMetadata s)")
    case True
    then have "''hasOwnProperty'' \<in> fst ` set (currentMetadata ?t)" by (simp add: t)
    from addCommonFields_raises [OF this commonFields_nonempty] True show ?thesis
      by (simp add: d t)
  next
    case False
    then have "''hasOwnProperty'' \<notin> fst ` set (currentMetadata ?t)" by (simp add: t)
    from addCommonFields_eq [OF this subset_refl] False show ?thesis
      by (simp add: d t)
  qed
qed

lemma displayMetadata_frame [simp]:
  "currentIndex (snd (displayMetadata s)) = currentIndex s"
  "totalImages (snd (displayMetadata s)) = totalImages s"
  "currentMetadata (snd (displayMetadata s)) = currentMetadata s"
  "mainContentHidden (snd (displayMetadata s)) = mainContentHidden s"
  "welcomeMessageHidden (snd (displayMetadata s)) = welcomeMessageHidden s"
  "trace (snd (displayMetadata s)) = trace s"
  by (simp_all add: displayMetadata_eq)

lemma updateNavigationButtons_frame [simp]:
  "currentIndex (updateNavigationButtons s) = currentIndex s"
  "totalImages (updateNavigationButtons s) = totalImages s"
  "currentMetadata (updateNavigationButtons s) = currentMetadata s"
  "metadataContainer (updateNavigationButtons s) = metadataContainer s"
  "mainContentHidden (updateNavigationButtons s) = mainContentHidden s"
  "welcomeMessageHidden (updateNavigationButtons s) = welcomeMessageHidden s"
  "trace (updateNavigationButtons s) = trace s"
  by (simp_all add: updateNavigationButtons_def)

lemma loadCurrentImage_frame [simp]:
  "currentIndex (loadCurrentImage e s) = currentIndex s"
  "totalImages (loadCurrentImage e s) = totalImages s"
  "mainContentHidden (loadCurrentImage e s) = mainContentHidden s"
  "welcomeMessageHidden (loadCurrentImage e s) = welcomeMessageHidden s"
  by (simp_all add: loadCurrentImage_def Let_def displayMetadata_eq
        split: response.splits option.splits prod.splits outcome.splits)

lemma loadCurrentImage_trace:
  "\<exists>rest. trace (loadCurrentImage e s) = trace s @ Fetch (GetImage (currentIndex s)) # rest"
  by (simp add: loadCurrentImage_def Let_def displayMetadata_eq extractFooterDataSilent_trace
        split: response.splits option.splits prod.splits outcome.splits)

section \<open>Navigation\<close>

lemma emitted_append: "trace t = trace s @ es \<Longrightarrow> emitted s t = es"
  by (simp add: emitted_def)




section \<open>Loading a folder\<close>

lemma cancelIdentifyMode_frame [simp]:
  "currentIndex (cancelIdentifyMode s) = currentIndex s"
  "totalImages (cancelIdentifyMode s) = totalImages s"
  "currentMetadata (cancelIdentifyMode s) = currentMetadata s"
  "metadataContainer (cancelIdentifyMode s) = metadataContainer s"
  "mainContentHidden (cancelIdentifyMode s) = mainContentHidden s"
  "welcomeMessageHidden (cancelIdentifyMode s) = welcomeMessageHidden s"
  "trace (cancelIdentifyMode s) = trace s"
  by (simp_all add: cancelIdentifyMode_def)

lemma resetInterface_frame [simp]:
  "mainContentHidden (resetInterface s) = mainContentHidden s"
  "welcomeMessageHidden (resetInterface s) = welcomeMessageHidden s"
  "trace (resetInterface s) = trace s"
  "currentMetadata (resetInterface s) = []"
  by (simp_all add: resetInterface_def)

lemma loadFolder_empty:
  assumes "selectedPath s \<noteq> []" and "selectedPath s \<noteq> ''No folder selected''"
    and "loadFolderReply e (selectedPath s) = Reply r" and "fr_success r" and "fr_count r \<le> 0"
  shows "loadFolder e s =
           alert ''No supported image files found in the selected folder.''
             ((fetch (LoadFolder (selectedPath s)) (resetInterface s))
                \<lparr>totalImages := fr_count r, currentIndex := 0, currentMetadata := []\<rparr>)"
  using assms by (simp add: loadFolder_def Let_def)

lemma loadFolder_nonempty:
  assumes "selectedPath s \<noteq> []" and "selectedPath s \<noteq> ''No folder selected''"
    and "loadFolderReply e (selectedPath s) = Reply r" and "fr_success r" and "fr_count r > 0"
  shows "loadFolder e s =
           loadCurrentImage e (showMainContent
             ((fetch (LoadFolder (selectedPath s)) (resetInterface s))
                \<lparr>totalImages := fr_count r, currentIndex := 0, currentMetadata := []\<rparr>))"
  using assms by (simp add: loadFolder_def Let_def)

text \<open>
  Claim C2 (amended). A folder load whose reply reports success: with a count of 0 it
  leaves the visibility of the main content and of the welcome message as they were
  (the main content stays hidden if it was hidden), asks for no image and fires the
  "no supported image files" alert; with a count above 0 it leaves \<open>currentIndex\<close> at
  exactly 0, reveals the main content and requests image 0.
\<close>

theorem loadFolder_on_success:
  assumes "selectedPath s \<noteq> []" and "selectedPath s \<noteq> ''No folder selected''"
    and "loadFolderReply e (selectedPath s) = Reply r" and "fr_success r"
  shows "(fr_count r = 0 \<longrightarrow>
            mainContentHidden (loadFolder e s) = mainContentHidden s \<and>
            welcomeMessageHidden (loadFolder e s) = welcomeMessageHidden s \<and>
            emitted s (loadFolder e s) =
              [Fetch (LoadFolder (selectedPath s)),
               Alert ''No supported image files found in the selected folder.'']) \<and>
         (fr_count r > 0 \<longrightarrow>
            currentIndex (loadFolder e s) = 0 \<and>
            totalImages (loadFolder e s) = fr_count r \<and>
            \<not> mainContentHidden (loadFolder e s) \<and>
            welcomeMessageHidden (loadFolder e s) \<and>
            (\<exists>rest. emitted s (loadFolder e s) =
               Fetch (LoadFolder (selectedPath s)) # Fetch (GetImage 0) # rest))"
proof (intro conjI impI)
  assume z: "fr_count r = 0"
  then have le: "fr_count r \<le> 0" by simp
  note eq = loadFolder_empty [OF assms le]
  show "mainContentHidden (loadFolder e s) = mainContentHidden s" by (simp add: eq)
  show "welcomeMessageHidden (loadFolder e s) = welcomeMessageHidden s" by (simp add: eq)
  show "emitted s (loadFolder e s) =
          [Fetch (LoadFolder (selectedPath s)),
           Alert ''No supported image files found in the selected folder.'']"
    by (rule emitted_append) (simp add: eq)
next
  assume p: "fr_count r > 0"
  note eq = loadFolder_nonempty [OF assms p]
  let ?t = "showMainContent
             ((fetch (LoadFolder (selectedPath s)) (resetInterface s))
                \<lparr>totalImages := fr_count r, currentIndex := 0, currentMetadata := []\<rparr>)"
  show "currentIndex (loadFolder e s) = 0" by (simp add: eq showMainContent_def)
  show "totalImages (loadFolder e s) = fr_count r" by (simp add: eq showMainContent_def)
  show "\<not> mainContentHidden (loadFolder e s)" by (simp add: eq showMainContent_def)
  show "welcomeMessageHidden (loadFolder e s)" by (simp add: eq showMainContent_def)
  from loadCurrentImage_trace [of e ?t]
  obtain rest where "trace (loadCurrentImage e ?t) = trace ?t @ Fetch (GetImage (currentIndex ?t)) # rest"
    by blast
  then have "trace (loadFolder e s) =
      trace s @ Fetch (LoadFolder (selectedPath s)) # Fetch (GetImage 0) # rest"
    by (simp add: eq showMainContent_def)
  then show "\<exists>rest. emitted s (loadFolder e s) =
               Fetch (LoadFolder (selectedPath s)) # Fetch (GetImage 0) # rest"
    by (simp add: emitted_append)
qed

lemma selectedPath_frame [simp]:
  "selectedPath (alert m s) = selectedPath s"
  "selectedPath (fetch q s) = selectedPath s"
  "selectedPath (addDebugOutput e m s) = selectedPath s"
  "selectedPath (resetInterface s) = selectedPath s"
  by (simp_all add: alert_def fetch_def addDebugOutput_def Let_def resetInterface_def
       cancelIdentifyMode_def updateNavigationButtons_def)

text \<open>
  As stated, C2 fails for a load of an empty folder that follows a load of a folder
  with images: nothing hides the main content again.
\<close>

theorem loadFolder_empty_after_loaded_counterexample:
  "loadFolderReply server ''/empty'' = Reply \<lparr>fr_success = True, fr_count = 0, fr_error = None\<rparr> \<and>
   \<not> mainContentHidden
       (loadFolder server
          (selectCurrentFolder ''/empty''
             (loadFolder server (selectCurrentFolder ''/photos'' initial))))"
proof -
  let ?s0 = "selectCurrentFolder ''/photos'' initial"
  have p0: "selectedPath ?s0 = ''/photos''" by (simp add: selectCurrentFolder_def)
  have r0: "loadFolderReply server (selectedPath ?s0) = Reply \<lparr>fr_success = True, fr_count = 2, fr_error = None\<rparr>"
    unfolding p0 by (simp add: server_def)
  have eq1: "loadFolder server ?s0 = loadCurrentImage server (showMainContent
             ((fetch (LoadFolder (selectedPath ?s0)) (resetInterface ?s0))
                \<lparr>totalImages := 2, currentIndex := 0, currentMetadata := []\<rparr>))"
    using loadFolder_nonempty [OF _ _ r0] by (simp add: p0)
  let ?s1 = "loadFolder server ?s0"
  have vis: "\<not> mainContentHidden ?s1" by (simp add: eq1 showMainContent_def)
  let ?s2 = "selectCurrentFolder ''/empty'' ?s1"
  have p2: "selectedPath ?s2 = ''/empty''" by (simp add: selectCurrentFolder_def)
  have r2: "loadFolderReply server (selectedPath ?s2) = Reply \<lparr>fr_success = True, fr_count = 0, fr_error = None\<rparr>"
    unfolding p2 by (simp add: server_def)
  have "mainContentHidden (loadFolder server ?s2) = mainContentHidden ?s2"
    using loadFolder_empty [OF _ _ r2] by (simp add: p2)
  also have "\<dots> = mainContentHidden ?s1" by (simp add: selectCurrentFolder_def)
  finally show ?thesis using vis by (simp add: server_def)
qed

theorem loadFolder_on_success_witness:
  "mainContentHidden (loadFolder server (selectCurrentFolder ''/empty'' initial)) \<and>
   emitted (selectCurrentFolder ''/empty'' initial)
     (loadFolder server (selectCurrentFolder ''/empty'' initial)) =
     [Fetch (LoadFolder ''/empty''),
      Alert ''No supported image files found in the selected folder.''] \<and>
   currentIndex (loadFolder server (selectCurrentFolder ''/photos'' initial)) = 0 \<and>
   \<not> mainContentHidden (loadFolder server (selectCurrentFolder ''/photos'' initial)) \<and>
   (\<exists>rest. emitted (selectCurrentFolder ''/photos'' initial)
      (loadFolder server (selectCurrentFolder ''/photos'' initial)) =
      Fetch (LoadFolder ''/photos'') # Fetch (GetImage 0) # rest)"
proof -
  let ?a = "selectCurrentFolder ''/empty'' initial"
  let ?b = "selectCurrentFolder ''/photos'' initial"
  have pa: "selectedPath ?a = ''/empty''" and pb: "selectedPath ?b = ''/photos''"
    by (simp_all add: selectCurrentFolder_def)
  have ha: "mainContentHidden ?a" by (simp add: selectCurrentFolder_def initial_def)
  have ra: "loadFolderReply server (selectedPath ?a) =
              Reply \<lparr>fr_success = True, fr_count = 0, fr_error = None\<rparr>"
    unfolding pa by (simp add: server_def)
  have rb: "loadFolderReply server (selectedPath ?b) =
              Reply \<lparr>fr_success = True, fr_count = 2, fr_error = None\<rparr>"
    unfolding pb by (simp add: server_def)
  have na: "selectedPath ?a \<noteq> []" "selectedPath ?a \<noteq> ''No folder selected''"
    by (simp_all add: pa)
  have nb: "selectedPath ?b \<noteq> []" "selectedPath ?b \<noteq> ''No folder selected''"
    by (simp_all add: pb)
  from loadFolder_on_success [OF na ra] loadFolder_on_success [OF nb rb] ha
  show ?thesis by (simp add: pa pb)
qed

section \<open>The automatic footer extraction\<close>

lemma loadCurrentImage_loaded:
  assumes "imageReply e (currentIndex s) = Reply d" and "\<not> truthy (im_error d)"
    and "md = (case im_metadata d of None \<Rightarrow> [] | Some m \<Rightarrow> m)"
    and "''hasOwnProperty'' \<notin> fst ` set md"
  shows "trace (loadCurrentImage e s) =
           trace s @ Fetch (GetImage (currentIndex s)) #
             (if truthy (map_of md ''Temperature_C'') \<and> truthy (map_of md ''Temperature_F'')
                 \<and> truthy (map_of md ''Camera_ID'') \<or> totalImages s = 0
              then [] else [Fetch (ExtractFooter (currentIndex s))])"
    and "currentMetadata (loadCurrentImage e s) = md"
  using assms
  by (simp_all add: loadCurrentImage_def Let_def displayMetadata_eq extractFooterDataSilent_trace
        split: option.splits)

lemma truthy_map_of:
  "truthy (map_of md k) = (\<not> (k \<notin> fst ` set md \<or> map_of md k = Some []))"
  by (cases "map_of md k")
     (simp_all add: truthy_def dom_map_of_conv_image_fst [symmetric] domIff)

text \<open>
  Claim C7 (amended). After an image load that succeeds (the reply carries no error,
  rendering the form does not throw, and a folder is loaded), the footer extraction is
  requested if and only if at least one of \<open>Temperature_C\<close>, \<open>Temperature_F\<close>,
  \<open>Camera_ID\<close> is absent from the loaded metadata or holds an empty value; it is
  requested for the current index and for no other.
\<close>

theorem footer_extraction_trigger:
  assumes "imageReply e (currentIndex s) = Reply d" and "\<not> truthy (im_error d)"
    and "md = (case im_metadata d of None \<Rightarrow> [] | Some m \<Rightarrow> m)"
    and "''hasOwnProperty'' \<notin> fst ` set md"
    and "totalImages s \<noteq> 0"
  shows "currentMetadata (loadCurrentImage e s) = md \<and>
         (Fetch (ExtractFooter (currentIndex s)) \<in> set (emitted s (loadCurrentImage e s))) =
           (\<exists>k \<in> {''Temperature_C'', ''Temperature_F'', ''Camera_ID''}.
              k \<notin> fst ` set md \<or> map_of md k = Some []) \<and>
         (\<exists>i. Fetch (ExtractFooter i) \<in> set (emitted s (loadCurrentImage e s))) =
           (Fetch (ExtractFooter (currentIndex s)) \<in> set (emitted s (loadCurrentImage e s)))"
proof -
  note tr = loadCurrentImage_loaded(1) [OF assms(1-4)]
  have em: "emitted s (loadCurrentImage e s) =
      Fetch (GetImage (currentIndex s)) #
             (if truthy (map_of md ''Temperature_C'') \<and> truthy (map_of md ''Temperature_F'')
                 \<and> truthy (map_of md ''Camera_ID'')
              then [] else [Fetch (ExtractFooter (currentIndex s))])"
    using assms(5) by (simp add: emitted_append [OF tr])
  have a: "(Fetch (ExtractFooter (currentIndex s)) \<in> set (emitted s (loadCurrentImage e s))) =
           (\<exists>k \<in> {''Temperature_C'', ''Temperature_F'', ''Camera_ID''}.
              k \<notin> fst ` set md \<or> map_of md k = Some [])"
    by (simp add: em truthy_map_of)
  have b: "(\<exists>i. Fetch (ExtractFooter i) \<in> set (emitted s (loadCurrentImage e s))) =
           (Fetch (ExtractFooter (currentIndex s)) \<in> set (emitted s (loadCurrentImage e s)))"
    by (auto simp: em)
  have c: "currentMetadata (loadCurrentImage e s) = md"
    by (rule loadCurrentImage_loaded(2) [OF assms(1-4)])
  from a b c show ?thesis by blast
qed

text \<open>
  As stated, C7 fails when all three keys are present and one of them is empty: the
  extraction is requested.
\<close>

theorem footer_extraction_all_present_counterexample:
  "currentMetadata (loadCurrentImage coldServer (initial\<lparr>totalImages := 2\<rparr>)) =
     [(''Temperature_C'', []), (''Temperature_F'', ''70''), (''Camera_ID'', ''CAM1'')] \<and>
   {''Temperature_C'', ''Temperature_F'', ''Camera_ID''} \<subseteq>
     fst ` set (currentMetadata (loadCurrentImage coldServer (initial\<lparr>totalImages := 2\<rparr>))) \<and>
   Fetch (ExtractFooter 0) \<in>
     set (emitted (initial\<lparr>totalImages := 2\<rparr>)
            (loadCurrentImage coldServer (initial\<lparr>totalImages := 2\<rparr>)))"
proof -
  let ?s = "initial\<lparr>totalImages := 2\<rparr>"
  let ?md = "[(''Temperature_C'', []), (''Temperature_F'', ''70''), (''Camera_ID'', ''CAM1'')]"
  let ?d = "\<lparr>im_error = None, im_dimensions = ''1920x1080'', im_size_mb = ''1.5'',
             im_index = currentIndex ?s,
             im_total = 2, im_filename = ''IMG_0002.JPG'', im_metadata = Some ?md\<rparr>"
  have r: "imageReply coldServer (currentIndex ?s) = Reply ?d"
    by (simp add: coldServer_def server_def)
  have e: "\<not> truthy (im_error ?d)" by (simp add: truthy_def)
  have m: "?md = (case im_metadata ?d of None \<Rightarrow> [] | Some m \<Rightarrow> m)" by simp
  have h: "''hasOwnProperty'' \<notin> fst ` set ?md" by simp
  note tr = loadCurrentImage_loaded(1) [OF r e m h]
  note cm = loadCurrentImage_loaded(2) [OF r e m h]
  have i0: "currentIndex ?s = 0" and t0: "trace ?s = []" by (simp_all add: initial_def)
  have "trace (loadCurrentImage coldServer ?s) =
          trace ?s @ [Fetch (GetImage 0), Fetch (ExtractFooter 0)]"
    unfolding tr i0 by (simp add: truthy_def)
  then have "emitted ?s (loadCurrentImage coldServer ?s) =
          [Fetch (GetImage 0), Fetch (ExtractFooter 0)]"
    by (rule emitted_append)
  then show ?thesis by (simp add: cm)
qed

theorem footer_extraction_trigger_witness:
  "emitted (initial\<lparr>totalImages := 2\<rparr>) (loadCurrentImage server (initial\<lparr>totalImages := 2\<rparr>)) \<noteq> [] \<and>
   Fetch (ExtractFooter 0) \<in>
     set (emitted (initial\<lparr>totalImages := 2\<rparr>)
            (loadCurrentImage server (initial\<lparr>totalImages := 2\<rparr>)))"
proof -
  let ?s = "initial\<lparr>totalImages := 2\<rparr>"
  let ?md = "[(''Species'', ''Kudu'')]"
  let ?d = "\<lparr>im_error = None, im_dimensions = ''1920x1080'', im_size_mb = ''1.5'',
             im_index = currentIndex ?s,
             im_total = 2, im_filename = ''IMG_0001.JPG'', im_metadata = Some ?md\<rparr>"
  have r: "imageReply server (currentIndex ?s) = Reply ?d"
    by (simp add: server_def)
  have e: "\<not> truthy (im_error ?d)" by (simp add: truthy_def)
  have m: "?md = (case im_metadata ?d of None \<Rightarrow> [] | Some m \<Rightarrow> m)" by simp
  have h: "''hasOwnProperty'' \<notin> fst ` set ?md" by simp
  have t: "totalImages ?s \<noteq> 0" by simp
  from footer_extraction_trigger [OF r e m h t]
  have "Fetch (ExtractFooter (currentIndex ?s)) \<in> set (emitted ?s (loadCurrentImage server ?s))"
    by simp
  then show ?thesis by (auto simp: initial_def)
qed

section \<open>Identification and the region selector\<close>

lemma identification_steps_frame [simp]:
  "currentIndex (updateSpecies i s) = currentIndex s"
  "totalImages (updateSpecies i s) = totalImages s"
  "currentMetadata (updateSpecies i s) = currentMetadata s"
  "trace (updateSpecies i s) = trace s"
  "currentIndex (updateCount i s) = currentIndex s"
  "totalImages (updateCount i s) = totalImages s"
  "currentMetadata (updateCount i s) = currentMetadata s"
  "trace (updateCount i s) = trace s"
  "currentIndex (addIfGiven l v s) = currentIndex s"
  "totalImages (addIfGiven l v s) = totalImages s"
  "currentMetadata (addIfGiven l v s) = currentMetadata s"
  "trace (addIfGiven l v s) = trace s"
  "currentIndex (appendNotes i s) = currentIndex s"
  "totalImages (appendNotes i s) = totalImages s"
  "currentMetadata (appendNotes i s) = currentMetadata s"
  "trace (appendNotes i s) = trace s"
  by (simp_all add: updateSpecies_def updateCount_def addIfGiven_def appendNotes_def Let_def
        split: option.splits)

lemma handleIdentificationResult_frame [simp]:
  "currentIndex (snd (handleIdentificationResult r s)) = currentIndex s"
  "totalImages (snd (handleIdentificationResult r s)) = totalImages s"
  "currentMetadata (snd (handleIdentificationResult r s)) = currentMetadata s"
  by (simp_all add: handleIdentificationResult_def split: option.splits)

lemma handleIdentificationResult_trace:
  "handleIdentificationResult None s = (Raised propertyOfUndefined, s)"
  "fst (handleIdentificationResult (Some i) s) = Normal"
  "trace (snd (handleIdentificationResult (Some i) s)) = trace s @ [Alert (identificationSummary i)]"
  by (simp_all add: handleIdentificationResult_def)

lemma cancelIdentifyMode_idle:
  "idle (cancelIdentifyMode s)"
  "navigationByPosition (cancelIdentifyMode s)"
  "identifyBtnDisabled (cancelIdentifyMode s) = identifyBtnDisabled s"
  by (simp_all add: cancelIdentifyMode_def updateNavigationButtons_def idle_def
        navigationByPosition_def)

lemma identifySpecies_eq:
  "currentSelection s = Some sel \<Longrightarrow>
   identifySpecies e s =
     cancelIdentifyMode
       ((tryIdentify e sel (s\<lparr>identifyBtnText := IdentifyingText, identifyBtnDisabled := True\<rparr>))
          \<lparr>identifyBtnDisabled := False\<rparr>)"
  by (simp add: identifySpecies_def Let_def)

lemma caught_frame:
  "currentIndex (case p of (Normal, t) \<Rightarrow> t | (Raised m, t) \<Rightarrow> alert (g m) t) = currentIndex (snd p)"
  "totalImages (case p of (Normal, t) \<Rightarrow> t | (Raised m, t) \<Rightarrow> alert (g m) t) = totalImages (snd p)"
  "currentMetadata (case p of (Normal, t) \<Rightarrow> t | (Raised m, t) \<Rightarrow> alert (g m) t) = currentMetadata (snd p)"
  by (simp_all split: prod.splits outcome.splits)

lemma tryIdentify_frame [simp]:
  "currentIndex (tryIdentify e sel s) = currentIndex s"
  "totalImages (tryIdentify e sel s) = totalImages s"
  "currentMetadata (tryIdentify e sel s) = currentMetadata s"
  by (simp_all add: tryIdentify_def Let_def caught_frame split: response.splits)

lemma tryIdentify_trace:
  "trace (tryIdentify e sel s) =
     trace s @ [Fetch (IdentifySpecies (currentIndex s) sel),
       Alert (case identifyReply e (currentIndex s) sel of
                Failed m \<Rightarrow> ''Error during identification: '' @ m
              | Reply r \<Rightarrow>
                  if ir_success r
                  then (case ir_identification r of
                          None \<Rightarrow> ''Error during identification: '' @ propertyOfUndefined
                        | Some i \<Rightarrow> identificationSummary i)
                  else ''Identification failed: '' @ printed (ir_error r))]"
proof (cases "identifyReply e (currentIndex s) sel")
  case (Failed m)
  then show ?thesis by (simp add: tryIdentify_def Let_def)
next
  case (Reply r)
  show ?thesis
  proof (cases "ir_success r")
    case False
    with Reply show ?thesis by (simp add: tryIdentify_def Let_def)
  next
    case True
    show ?thesis
    proof (cases "ir_identification r")
      case None
      with Reply True show ?thesis
        by (simp add: tryIdentify_def Let_def handleIdentificationResult_trace)
    next
      case (Some i)
      let ?s1 = "fetch (IdentifySpecies (currentIndex s) sel) s"
      obtain t where h: "handleIdentificationResult (Some i) ?s1 = (Normal, t)"
        using handleIdentificationResult_trace(2) [of i ?s1]
        by (cases "handleIdentificationResult (Some i) ?s1") simp
      have "trace t = trace ?s1 @ [Alert (identificationSummary i)]"
        using handleIdentificationResult_trace(3) [of i ?s1] by (simp add: h)
      with Reply True Some h show ?thesis
        by (simp add: tryIdentify_def Let_def)
    qed
  qed
qed

lemma identifySpecies_result:
  assumes "currentSelection s = Some sel"
  shows "\<not> identifyBtnDisabled (identifySpecies e s) \<and>
         idle (identifySpecies e s) \<and>
         navigationByPosition (identifySpecies e s) \<and>
         currentIndex (identifySpecies e s) = currentIndex s \<and>
         totalImages (identifySpecies e s) = totalImages s \<and>
         emitted s (identifySpecies e s) =
           [Fetch (IdentifySpecies (currentIndex s) sel),
            Alert (case identifyReply e (currentIndex s) sel of
                     Failed m \<Rightarrow> ''Error during identification: '' @ m
                   | Reply r \<Rightarrow>
                       if ir_success r
                       then (case ir_identification r of
                               None \<Rightarrow> ''Error during identification: '' @ propertyOfUndefined
                             | Some i \<Rightarrow> identificationSummary i)
                       else ''Identification failed: '' @ printed (ir_error r))]"
proof -
  note eq = identifySpecies_eq [OF assms, of e]
  have "emitted s (identifySpecies e s) =
           [Fetch (IdentifySpecies (currentIndex s) sel),
            Alert (case identifyReply e (currentIndex s) sel of
                     Failed m \<Rightarrow> ''Error during identification: '' @ m
                   | Reply r \<Rightarrow>
                       if ir_success r
                       then (case ir_identification r of
                               None \<Rightarrow> ''Error during identification: '' @ propertyOfUndefined
                             | Some i \<Rightarrow> identificationSummary i)
                       else ''Identification failed: '' @ printed (ir_error r))]"
    by (rule emitted_append) (simp add: eq tryIdentify_trace)
  moreover have "\<not> identifyBtnDisabled (identifySpecies e s)"
    by (simp add: eq cancelIdentifyMode_idle)
  moreover have "idle (identifySpecies e s)" "navigationByPosition (identifySpecies e s)"
    by (simp_all add: eq cancelIdentifyMode_idle)
  moreover have "currentIndex (identifySpecies e s) = currentIndex s"
    "totalImages (identifySpecies e s) = totalImages s"
    by (simp_all add: eq)
  ultimately show ?thesis by blast
qed

text \<open>
  Claim C9. Whatever the identification request yields (the request throws, the
  server reports a failure, the reply lacks the identification so that merging it
  throws, or the merge succeeds), afterwards the identify button is enabled again, the
  region selector is at rest with the selection cleared, and the navigation buttons
  are set from the position. The request is followed by exactly one alert: the error,
  the failure, or on success the summary.
\<close>

theorem identifySpecies_every_outcome:
  assumes "currentSelection s = Some sel"
  shows "\<not> identifyBtnDisabled (identifySpecies e s) \<and>
         idle (identifySpecies e s) \<and>
         navigationByPosition (identifySpecies e s) \<and>
         currentIndex (identifySpecies e s) = currentIndex s \<and>
         totalImages (identifySpecies e s) = totalImages s \<and>
         emitted s (identifySpecies e s) =
           [Fetch (IdentifySpecies (currentIndex s) sel),
            Alert (case identifyReply e (currentIndex s) sel of
                     Failed m \<Rightarrow> ''Error during identification: '' @ m
                   | Reply r \<Rightarrow>
                       if ir_success r
                       then (case ir_identification r of
                               None \<Rightarrow> ''Error during identification: '' @ propertyOfUndefined
                             | Some i \<Rightarrow> identificationSummary i)
                       else ''Identification failed: '' @ printed (ir_error r))]"
  using assms by (rule identifySpecies_result)

theorem identifySpecies_every_outcome_witness:
  "idle (identifySpecies offline (initial\<lparr>currentSelection := Some picked\<rparr>)) \<and>
   \<not> identifyBtnDisabled (identifySpecies offline (initial\<lparr>currentSelection := Some picked\<rparr>)) \<and>
   emitted (initial\<lparr>currentSelection := Some picked\<rparr>)
     (identifySpecies offline (initial\<lparr>currentSelection := Some picked\<rparr>)) =
     [Fetch (IdentifySpecies 0 picked), Alert ''Error during identification: Failed to fetch'']"
proof -
  let ?s = "initial\<lparr>currentSelection := Some picked\<rparr>"
  have c: "currentSelection ?s = Some picked" by simp
  have i: "currentIndex ?s = 0" by (simp add: initial_def)
  have r: "identifyReply offline 0 picked = Failed ''Failed to fetch''" by (simp add: offline_def)
  from identifySpecies_every_outcome [OF c, of offline] show ?thesis
    unfolding i r by simp
qed









section \<open>Saving\<close>













lemma saveMetadata_trace:
  "\<exists>after. trace (saveMetadata e s) =
     trace s @ Fetch (SaveMetadata (currentIndex s) (collectMetadata (metadataContainer s))) # after"
  by (simp add: saveMetadata_def Let_def split: response.splits)



section \<open>Rendering and adding fields\<close>

text \<open>
  For metadata that has no key named \<open>hasOwnProperty\<close>, rendering gives one row per
  entry and then one empty editable row per absent common field, and no common or
  read-only row carries a delete button.
\<close>

lemma render_rows:
  assumes "''hasOwnProperty'' \<notin> fst ` set (currentMetadata s)"
  shows "fst (displayMetadata s) = Normal"
    and "metadataContainer (snd (displayMetadata s)) =
           map existingRow (currentMetadata s) @
           map emptyRow (filter (\<lambda>f. f \<notin> fst ` set (currentMetadata s)) commonFields)"
    and "\<forall>f \<in> set (metadataContainer (snd (displayMetadata s))).
           readOnly f \<or> isCommonField (label f) \<longrightarrow> \<not> deleteBtn f"
  using assms
  by (auto simp: displayMetadata_eq existingRow_def emptyRow_def)

lemma render_kudu:
  "displayMetadata (initial\<lparr>currentMetadata := [(''Species'', ''Kudu'')]\<rparr>) =
     (Normal, initial\<lparr>currentMetadata := [(''Species'', ''Kudu'')],
        metadataContainer :=
          \<lparr>label = ''Species'', content = ''Kudu'', readOnly = False, deleteBtn = False\<rparr> #
          map emptyRow [''Count'', ''Behavior'', ''Weather'', ''Temperature_C'', ''Temperature_F'',
                        ''Location'', ''Camera_ID'', ''Researcher'', ''Notes'']\<rparr>)"
  by (simp add: displayMetadata_eq existingRow_def commonFields_def isCommonField_def
        readonlyFields_def toLowerCase_def toLowerChar_def sanitize_def)

lemma loadCurrentImage_render_throws:
  assumes "imageReply e (currentIndex s) = Reply d" and "\<not> truthy (im_error d)"
    and "im_metadata d = Some md" and "''hasOwnProperty'' \<in> fst ` set md"
  shows "trace (loadCurrentImage e s) =
           trace s @ [Fetch (GetImage (currentIndex s)),
                      Alert (''Error loading image: '' @ notAFunction)]"
    and "metadataContainer (loadCurrentImage e s) = map existingRow md"
  using assms by (simp_all add: loadCurrentImage_def Let_def displayMetadata_eq)

text \<open>
  Claim C4 fails on the code for metadata with a key named \<open>hasOwnProperty\<close>: the row
  for the entry is built, then the call \<open>this.currentMetadata.hasOwnProperty(field)\<close>
  of the second loop throws, and no row for any common field is added. Loading an
  image with such metadata ends in the alert of the \<open>catch\<close> block, with that one row
  in the form.
\<close>

theorem render_metadata_with_key_hasOwnProperty:
  "displayMetadata (initial\<lparr>currentMetadata := [(''hasOwnProperty'', ''x'')]\<rparr>) =
     (Raised notAFunction,
      initial\<lparr>currentMetadata := [(''hasOwnProperty'', ''x'')],
        metadataContainer :=
          [\<lparr>label = ''hasOwnProperty'', content = ''x'', readOnly = False, deleteBtn = True\<rparr>]\<rparr>) \<and>
   emitted (initial\<lparr>totalImages := 2\<rparr>)
     (loadCurrentImage shadowServer (initial\<lparr>totalImages := 2\<rparr>)) =
     [Fetch (GetImage 0), Alert (''Error loading image: '' @ notAFunction)] \<and>
   map label (metadataContainer (loadCurrentImage shadowServer (initial\<lparr>totalImages := 2\<rparr>))) =
     [''hasOwnProperty'']"
proof -
  let ?s = "initial\<lparr>totalImages := 2\<rparr>"
  let ?md = "[(''hasOwnProperty'', ''x'')]"
  let ?d = "\<lparr>im_error = None, im_dimensions = ''1920x1080'', im_size_mb = ''1.5'',
             im_index = currentIndex ?s,
             im_total = 2, im_filename = ''IMG_0003.JPG'', im_metadata = Some ?md\<rparr>"
  have r: "imageReply shadowServer (currentIndex ?s) = Reply ?d"
    by (simp add: shadowServer_def server_def)
  have e: "\<not> truthy (im_error ?d)" by (simp add: truthy_def)
  have m: "im_metadata ?d = Some ?md" by simp
  have h: "''hasOwnProperty'' \<in> fst ` set ?md" by simp
  have i0: "currentIndex ?s = 0" by (simp add: initial_def)
  have "trace (loadCurrentImage shadowServer ?s) =
          trace ?s @ [Fetch (GetImage 0), Alert (''Error loading image: '' @ notAFunction)]"
    using loadCurrentImage_render_throws(1) [OF r e m h] unfolding i0 .
  then have 1: "emitted ?s (loadCurrentImage shadowServer ?s) =
          [Fetch (GetImage 0), Alert (''Error loading image: '' @ notAFunction)]"
    by (rule emitted_append)
  have 2: "map label (metadataContainer (loadCurrentImage shadowServer ?s)) = [''hasOwnProperty'']"
    by (simp add: loadCurrentImage_render_throws(2) [OF r e m h] existingRow_def)
  have 3: "displayMetadata (initial\<lparr>currentMetadata := ?md\<rparr>) =
     (Raised notAFunction,
      initial\<lparr>currentMetadata := ?md,
        metadataContainer :=
          [\<lparr>label = ''hasOwnProperty'', content = ''x'', readOnly = False, deleteBtn = True\<rparr>]\<rparr>)"
    by (simp add: displayMetadata_eq existingRow_def commonFields_def isCommonField_def
        readonlyFields_def toLowerCase_def toLowerChar_def sanitize_def)
  from 1 2 3 show ?thesis by simp
qed

theorem render_metadata_with_key_hasOwnProperty_witness:
  "fst (displayMetadata (initial\<lparr>currentMetadata := [(''hasOwnProperty'', ''x'')]\<rparr>)) =
     Raised notAFunction \<and>
   length (metadataContainer
     (snd (displayMetadata (initial\<lparr>currentMetadata := [(''hasOwnProperty'', ''x'')]\<rparr>)))) = 1 \<and>
   length (emitted (initial\<lparr>totalImages := 2\<rparr>)
     (loadCurrentImage shadowServer (initial\<lparr>totalImages := 2\<rparr>))) = 2"
  using render_metadata_with_key_hasOwnProperty by simp

text \<open>
  The four ways \<open>addCustomField\<close> ends: a blank name and a name that is a key of
  \<open>currentMetadata\<close> give an alert and change nothing else; metadata with a key named
  \<open>hasOwnProperty\<close> makes the check throw; any other name appends one editable row and
  closes the dialog.
\<close>

lemma addCustomField_cases:
  "(trim (fieldName s) = [] \<longrightarrow>
      addCustomField s = (Normal, alert ''Please enter a field name'' s)) \<and>
   (trim (fieldName s) \<noteq> [] \<and> ''hasOwnProperty'' \<in> fst ` set (currentMetadata s) \<longrightarrow>
      addCustomField s = (Raised notAFunction, s)) \<and>
   (trim (fieldName s) \<noteq> [] \<and> ''hasOwnProperty'' \<notin> fst ` set (currentMetadata s) \<and>
    trim (fieldName s) \<in> fst ` set (currentMetadata s) \<longrightarrow>
      addCustomField s = (Normal, alert ''A field with this name already exists'' s)) \<and>
   (trim (fieldName s) \<noteq> [] \<and> ''hasOwnProperty'' \<notin> fst ` set (currentMetadata s) \<and>
    trim (fieldName s) \<notin> fst ` set (currentMetadata s) \<longrightarrow>
      addCustomField s =
        (Normal, s\<lparr>metadataContainer := metadataContainer s @
                    [\<lparr>label = trim (fieldName s), content = sanitize (trim (fieldValue s)),
                      readOnly = False, deleteBtn = (\<not> isCommonField (trim (fieldName s)))\<rparr>],
                  addFieldModalHidden := True\<rparr>))"
  by (simp add: addCustomField_def Let_def hasOwnProperty_def createMetadataField_def
        hideAddFieldModal_def)

lemma rendered_eq: "rendered = initial\<lparr>metadataContainer := map emptyRow commonFields\<rparr>"
  by (simp add: rendered_def displayMetadata_eq initial_def)

lemma fillDialog_fields [simp]:
  "fieldName (fillDialog n v s) = n"
  "fieldValue (fillDialog n v s) = v"
  "currentMetadata (fillDialog n v s) = currentMetadata s"
  "metadataContainer (fillDialog n v s) = metadataContainer s"
  "trace (fillDialog n v s) = trace s"
  by (simp_all add: fillDialog_def showAddFieldModal_def)

lemma trim_names:
  "trim ''Species'' = ''Species''" "trim ''Trail'' = ''Trail''" "trim ''north'' = ''north''"
  "trim ''Kudu'' = ''Kudu''"
  by (simp_all add: trim_def isWhiteSpace_def)

lemma addCustomField_fresh:
  assumes "currentMetadata s = []" and "trim (fieldName s) = n" and "n \<noteq> []"
    and "trim (fieldValue s) = v"
  shows "snd (addCustomField s) =
           s\<lparr>metadataContainer := metadataContainer s @
                [\<lparr>label = n, content = sanitize v, readOnly = False,
                  deleteBtn = (\<not> isCommonField n)\<rparr>],
              addFieldModalHidden := True\<rparr>"
    and "fst (addCustomField s) = Normal"
  using addCustomField_cases [of s] assms by simp_all

text \<open>
  Claim C8 fails on the code for a name that the form shows but \<open>currentMetadata\<close>
  lacks. With the ten common fields rendered for an image without metadata, adding
  "Species" fires no alert, closes the dialog and appends a second Species row, which
  has no delete button; the names of the form are no longer distinct. Adding "Trail"
  and then "Trail" again gives two Trail rows and no alert.
\<close>

theorem addCustomField_repeats_field_names:
  "''Species'' \<in> label ` set (metadataContainer dialogFilled) \<and>
   distinct (map label (metadataContainer dialogFilled)) \<and>
   fst (addCustomField dialogFilled) = Normal \<and>
   trace (snd (addCustomField dialogFilled)) = trace dialogFilled \<and>
   addFieldModalHidden (snd (addCustomField dialogFilled)) \<and>
   metadataContainer (snd (addCustomField dialogFilled)) =
     metadataContainer dialogFilled @
       [\<lparr>label = ''Species'', content = ''Kudu'', readOnly = False, deleteBtn = False\<rparr>] \<and>
   \<not> distinct (map label (metadataContainer (snd (addCustomField dialogFilled)))) \<and>
   map label (metadataContainer trailOnce) = commonFields @ [''Trail''] \<and>
   map label (metadataContainer trailTwice) = commonFields @ [''Trail'', ''Trail''] \<and>
   trace trailTwice = []"
proof -
  have c: "metadataContainer dialogFilled = map emptyRow commonFields"
    and m: "currentMetadata dialogFilled = []"
    and t: "trace dialogFilled = []"
    by (simp_all add: dialogFilled_def rendered_eq initial_def)
  have n: "trim (fieldName dialogFilled) = ''Species''"
    and v: "trim (fieldValue dialogFilled) = ''Kudu''"
    by (simp_all add: dialogFilled_def trim_names)
  note r = addCustomField_fresh [OF m n _ v]
  have l: "map (label \<circ> emptyRow) xs = xs" for xs
    by (induction xs) (simp_all add: emptyRow_def)
  have a: "''Species'' \<in> label ` set (metadataContainer dialogFilled) \<and>
   distinct (map label (metadataContainer dialogFilled)) \<and>
   fst (addCustomField dialogFilled) = Normal \<and>
   trace (snd (addCustomField dialogFilled)) = trace dialogFilled \<and>
   addFieldModalHidden (snd (addCustomField dialogFilled)) \<and>
   metadataContainer (snd (addCustomField dialogFilled)) =
     metadataContainer dialogFilled @
       [\<lparr>label = ''Species'', content = ''Kudu'', readOnly = False, deleteBtn = False\<rparr>] \<and>
   \<not> distinct (map label (metadataContainer (snd (addCustomField dialogFilled))))"
    by (simp add: r c emptyRow_def commonFields_def isCommonField_def sanitize_def)
  let ?d1 = "fillDialog ''Trail'' ''north'' rendered"
  have m1: "currentMetadata ?d1 = []" by (simp add: rendered_eq initial_def)
  have n1: "trim (fieldName ?d1) = ''Trail''" and v1: "trim (fieldValue ?d1) = ''north''"
    by (simp_all add: trim_names)
  have once: "trailOnce = ?d1\<lparr>metadataContainer := metadataContainer ?d1 @
                [\<lparr>label = ''Trail'', content = sanitize ''north'', readOnly = False,
                  deleteBtn = (\<not> isCommonField ''Trail'')\<rparr>],
              addFieldModalHidden := True\<rparr>"
    unfolding trailOnce_def by (rule addCustomField_fresh(1) [OF m1 n1 _ v1]) simp
  have c1: "map label (metadataContainer trailOnce) = commonFields @ [''Trail'']"
    by (simp add: once rendered_eq l)
  have t1: "trace trailOnce = []" by (simp add: once rendered_eq initial_def)
  let ?d2 = "fillDialog ''Trail'' ''north'' trailOnce"
  have m2: "currentMetadata ?d2 = []" by (simp add: once rendered_eq initial_def)
  have n2: "trim (fieldName ?d2) = ''Trail''" and v2: "trim (fieldValue ?d2) = ''north''"
    by (simp_all add: trim_names)
  have twice: "trailTwice = ?d2\<lparr>metadataContainer := metadataContainer ?d2 @
                [\<lparr>label = ''Trail'', content = sanitize ''north'', readOnly = False,
                  deleteBtn = (\<not> isCommonField ''Trail'')\<rparr>],
              addFieldModalHidden := True\<rparr>"
    unfolding trailTwice_def by (rule addCustomField_fresh(1) [OF m2 n2 _ v2]) simp
  have c2: "map label (metadataContainer trailTwice) = commonFields @ [''Trail'', ''Trail'']"
    by (simp add: twice c1)
  have t2: "trace trailTwice = []" by (simp add: twice t1)
  from a c1 c2 t2 show ?thesis by simp
qed

theorem addCustomField_repeats_field_names_witness:
  "length (metadataContainer (snd (addCustomField dialogFilled))) =
     Suc (length (metadataContainer dialogFilled)) \<and>
   length (metadataContainer trailTwice) = length commonFields + 2"
proof -
  from addCustomField_repeats_field_names
  have m: "map label (metadataContainer trailTwice) = commonFields @ [''Trail'', ''Trail'']"
    and c: "metadataContainer (snd (addCustomField dialogFilled)) =
     metadataContainer dialogFilled @
       [\<lparr>label = ''Species'', content = ''Kudu'', readOnly = False, deleteBtn = False\<rparr>]"
    by blast+
  from arg_cong [OF m, of length] have "length (metadataContainer trailTwice) = length commonFields + 2"
    by simp
  with c show ?thesis by simp
qed

section \<open>Who writes the current metadata\<close>

lemma loadCurrentImage_metadata:
  "currentMetadata (loadCurrentImage e s) = currentMetadata s \<or>
   currentMetadata (loadCurrentImage e s) = [] \<or>
   (\<exists>d m. imageReply e (currentIndex s) = Reply d \<and> im_metadata d = Some m \<and>
      currentMetadata (loadCurrentImage e s) = m)"
  by (simp add: loadCurrentImage_def Let_def displayMetadata_eq
        split: response.splits option.splits)

lemma navigateToImage_metadata:
  "currentMetadata (navigateToImage e i s) = currentMetadata s \<or>
   currentMetadata (navigateToImage e i s) = [] \<or>
   (\<exists>j d m. imageReply e j = Reply d \<and> im_metadata d = Some m \<and>
      currentMetadata (navigateToImage e i s) = m)"
proof (cases "i < 0 \<or> i \<ge> totalImages s")
  case True
  then show ?thesis by (auto simp: navigateToImage_def)
next
  case False
  then have eq: "navigateToImage e i s = loadCurrentImage e (s\<lparr>currentIndex := i\<rparr>)"
    by (simp add: navigateToImage_def)
  from loadCurrentImage_metadata [of e "s\<lparr>currentIndex := i\<rparr>"] show ?thesis
    unfolding eq by auto
qed

lemma loadFolder_metadata:
  "currentMetadata (loadFolder e s) = currentMetadata s \<or>
   currentMetadata (loadFolder e s) = [] \<or>
   (\<exists>j d m. imageReply e j = Reply d \<and> im_metadata d = Some m \<and>
      currentMetadata (loadFolder e s) = m)"
proof -
  let ?p = "selectedPath s"
  let ?s1 = "fetch (LoadFolder ?p) (resetInterface s)"
  show ?thesis
  proof (cases "?p = [] \<or> ?p = ''No folder selected''")
    case True
    then show ?thesis by (auto simp: loadFolder_def Let_def)
  next
    case committed: False
    show ?thesis
    proof (cases "loadFolderReply e ?p")
      case (Failed m)
      with committed show ?thesis by (simp add: loadFolder_def Let_def)
    next
      case (Reply r)
      show ?thesis
      proof (cases "fr_success r \<and> fr_count r > 0")
        case False
        with committed Reply show ?thesis by (auto simp: loadFolder_def Let_def)
      next
        case True
        let ?t = "showMainContent
                    (?s1\<lparr>totalImages := fr_count r, currentIndex := 0, currentMetadata := []\<rparr>)"
        from committed Reply True have eq: "loadFolder e s = loadCurrentImage e ?t"
          by (simp add: loadFolder_def Let_def)
        have "currentMetadata ?t = []" by (simp add: showMainContent_def)
        with loadCurrentImage_metadata [of e ?t] show ?thesis
          unfolding eq by auto
      qed
    qed
  qed
qed

lemma selector_frame [simp]:
  "currentMetadata (startIdentifyMode s) = currentMetadata s"
  "currentMetadata (toggleIdentifyMode s) = currentMetadata s"
  "currentMetadata (startSelection lay ev s) = currentMetadata s"
  "currentMetadata (updateSelection lay ev s) = currentMetadata s"
  "currentMetadata (showAddFieldModal s) = currentMetadata s"
  "currentMetadata (hideAddFieldModal s) = currentMetadata s"
  "currentMetadata (selectCurrentFolder p s) = currentMetadata s"
  "currentMetadata (typeInput i v s) = currentMetadata s"
  by (simp_all add: startIdentifyMode_def toggleIdentifyMode_def startSelection_def
        updateSelection_def showAddFieldModal_def hideAddFieldModal_def selectCurrentFolder_def
        typeInput_def Let_def split: option.splits)

lemma identifySpecies_metadata [simp]:
  "currentMetadata (identifySpecies e s) = currentMetadata s"
proof (cases "currentSelection s")
  case None
  then show ?thesis by (simp add: identifySpecies_def)
next
  case (Some sel)
  then show ?thesis by (simp add: identifySpecies_eq)
qed

lemma endSelection_metadata [simp]:
  "currentMetadata (endSelection e lay ev s) = currentMetadata s"
  by (simp add: endSelection_def Let_def split: option.splits)

lemma saveMetadata_metadata [simp]:
  "currentMetadata (saveMetadata e s) = currentMetadata s"
  by (simp add: saveMetadata_def Let_def split: response.splits)

lemma addCustomField_metadata [simp]:
  "currentMetadata (snd (addCustomField s)) = currentMetadata s"
  by (simp add: addCustomField_def Let_def hideAddFieldModal_def split: sum.splits)

lemma keydown_metadata:
  "currentMetadata (keydown e k s) = currentMetadata s \<or>
   (k = ArrowLeft \<or> k = ArrowRight \<or> k = HomeKey \<or> k = EndKey)"
  by (cases k) (simp_all add: keydown_def)

lemma handle_metadata:
  "currentMetadata (handle e ev s) = currentMetadata s \<or> loadsImages ev \<or>
   (\<exists>i. ev = ClickDelete i)"
  using keydown_metadata [of e _ s] by (cases ev) auto

lemma handle_loads_metadata:
  assumes "loadsImages ev"
  shows "currentMetadata (handle e ev s) = currentMetadata s \<or>
         currentMetadata (handle e ev s) = [] \<or>
         (\<exists>j d m. imageReply e j = Reply d \<and> im_metadata d = Some m \<and>
            currentMetadata (handle e ev s) = m)"
proof (cases ev)
  case (KeyDown k)
  with assms show ?thesis
    using navigateToImage_metadata [of e _ s]
    by (cases k) (simp_all add: keydown_def)
qed (use assms loadFolder_metadata [of e s] navigateToImage_metadata [of e _ s] in simp_all)

lemma clickDelete_metadata:
  "currentMetadata (clickDelete i s) = currentMetadata s \<or>
   (i < length (metadataContainer s) \<and> deleteBtn (metadataContainer s ! i) \<and>
    currentMetadata (clickDelete i s) =
      AList.delete (label (metadataContainer s ! i)) (currentMetadata s))"
  by (simp add: clickDelete_def Let_def)

lemma saveMetadata_reads_form:
  "emitted (s\<lparr>currentMetadata := m\<rparr>) (saveMetadata e (s\<lparr>currentMetadata := m\<rparr>)) =
   emitted s (saveMetadata e s)"
  by (simp add: emitted_def saveMetadata_def Let_def alert_def fetch_def split: response.splits)

lemma formOnlyI: "t = s\<lparr>metadataContainer := c, trace := tr\<rparr> \<Longrightarrow> formOnly s t"
  unfolding formOnly_def by blast

lemma formOnly_refl: "formOnly s s"
  by (rule formOnlyI [where c = "metadataContainer s" and tr = "trace s"]) simp

lemma formOnly_trans:
  assumes "formOnly s t" and "formOnly t u"
  shows "formOnly s u"
proof -
  from assms(1) obtain c tr where t: "t = s\<lparr>metadataContainer := c, trace := tr\<rparr>"
    unfolding formOnly_def by blast
  from assms(2) obtain c' tr' where u: "u = t\<lparr>metadataContainer := c', trace := tr'\<rparr>"
    unfolding formOnly_def by blast
  show ?thesis
    by (rule formOnlyI [where c = c' and tr = tr']) (simp add: t u)
qed

lemma formOnly_steps:
  "formOnly s (setInputValue n v s)"
  "formOnly s (createMetadataField l v ro s)"
  "formOnly s (alert m s)"
proof -
  show "formOnly s (setInputValue n v s)"
    by (rule formOnlyI [where tr = "trace s"]) (simp add: setInputValue_def)
  show "formOnly s (createMetadataField l v ro s)"
    by (rule formOnlyI [where tr = "trace s"]) (simp add: createMetadataField_def)
  show "formOnly s (alert m s)"
    by (rule formOnlyI [where c = "metadataContainer s"]) (simp add: alert_def)
qed

lemma formOnly_blocks:
  "formOnly s (updateSpecies i s)"
  "formOnly s (updateCount i s)"
  "formOnly s (addIfGiven l v s)"
  "formOnly s (appendNotes i s)"
  by (simp_all add: updateSpecies_def updateCount_def addIfGiven_def appendNotes_def Let_def
        formOnly_steps formOnly_refl split: option.splits)


lemma handleIdentificationResult_formOnly:
  "formOnly s (snd (handleIdentificationResult r s))"
proof (cases r)
  case None
  then show ?thesis by (simp add: handleIdentificationResult_def formOnly_refl)
next
  case (Some i)
  let ?a = "updateSpecies i s"
  let ?b = "updateCount i ?a"
  let ?c = "addIfGiven ''AI_Confidence'' (id_confidence i) ?b"
  let ?d = "addIfGiven ''Scientific_Name'' (id_scientific_name i) ?c"
  let ?f = "addIfGiven ''Habitat'' (id_habitat i) ?d"
  let ?g = "appendNotes i ?f"
  have 1: "formOnly s ?b"
    by (rule formOnly_trans [OF formOnly_blocks(1) formOnly_blocks(2)])
  have 2: "formOnly s ?d"
    by (rule formOnly_trans [OF formOnly_trans [OF 1 formOnly_blocks(3)] formOnly_blocks(3)])
  have 3: "formOnly s ?g"
    by (rule formOnly_trans [OF formOnly_trans [OF 2 formOnly_blocks(3)] formOnly_blocks(4)])
  have "formOnly s (alert (identificationSummary i) ?g)"
    by (rule formOnly_trans [OF 3 formOnly_steps(3)])
  then show ?thesis by (simp add: Some handleIdentificationResult_def)
qed

lemma addCustomField_snd:
  "snd (addCustomField s) = s \<or> (\<exists>m. snd (addCustomField s) = alert m s) \<or>
   snd (addCustomField s) =
      (s\<lparr>addFieldModalHidden := True\<rparr>)\<lparr>metadataContainer := metadataContainer s @
                    [\<lparr>label = trim (fieldName s), content = sanitize (trim (fieldValue s)),
                      readOnly = False, deleteBtn = (\<not> isCommonField (trim (fieldName s)))\<rparr>]\<rparr>"
proof -
  note c = addCustomField_cases [of s]
  show ?thesis
  proof (cases "trim (fieldName s) = []")
    case True
    with c have "snd (addCustomField s) = alert ''Please enter a field name'' s" by simp
    then show ?thesis by blast
  next
    case named: False
    show ?thesis
    proof (cases "''hasOwnProperty'' \<in> fst ` set (currentMetadata s)")
      case True
      with c named have "snd (addCustomField s) = s" by simp
      then show ?thesis by blast
    next
      case plain: False
      show ?thesis
      proof (cases "trim (fieldName s) \<in> fst ` set (currentMetadata s)")
        case True
        with c named plain
        have "snd (addCustomField s) = alert ''A field with this name already exists'' s"
          by simp
        then show ?thesis by blast
      next
        case False
        with c named plain show ?thesis by simp
      qed
    qed
  qed
qed

lemma addCustomField_formOnly:
  "\<exists>h. formOnly (s\<lparr>addFieldModalHidden := h\<rparr>) (snd (addCustomField s))"
proof -
  let ?new = "(s\<lparr>addFieldModalHidden := True\<rparr>)\<lparr>metadataContainer := metadataContainer s @
                    [\<lparr>label = trim (fieldName s), content = sanitize (trim (fieldValue s)),
                      readOnly = False, deleteBtn = (\<not> isCommonField (trim (fieldName s)))\<rparr>]\<rparr>"
  have same: "s\<lparr>addFieldModalHidden := addFieldModalHidden s\<rparr> = s" by simp
  from addCustomField_snd [of s] consider
      (a) "snd (addCustomField s) = s"
    | (b) m where "snd (addCustomField s) = alert m s"
    | (c) "snd (addCustomField s) = ?new" by blast
  then show ?thesis
  proof cases
    case a
    then have "formOnly (s\<lparr>addFieldModalHidden := addFieldModalHidden s\<rparr>) (snd (addCustomField s))"
      by (simp add: formOnly_refl)
    then show ?thesis ..
  next
    case b
    then have "formOnly (s\<lparr>addFieldModalHidden := addFieldModalHidden s\<rparr>) (snd (addCustomField s))"
      by (simp add: formOnly_steps)
    then show ?thesis ..
  next
    case c
    have "formOnly (s\<lparr>addFieldModalHidden := True\<rparr>) ?new"
      by (rule formOnlyI [where tr = "trace s"]) simp
    with c have "formOnly (s\<lparr>addFieldModalHidden := True\<rparr>) (snd (addCustomField s))" by simp
    then show ?thesis ..
  qed
qed

text \<open>
  Claim C10. Adding a custom field and merging an identification result leave
  \<open>currentMetadata\<close> as it was: the first changes at most the rows of the form, the
  dialog's visibility and the trace, the second at most the rows of the form and the
  trace. Among all event handlers, only those that load a folder or an image and the
  delete button of a row can change \<open>currentMetadata\<close>; a load leaves it, empties it or
  replaces it by the mapping of an image reply, a delete removes the row's key. What a
  save submits is computed from the rows of the form and is the same whatever
  \<open>currentMetadata\<close> holds.
\<close>

theorem currentMetadata_writers:
  "currentMetadata (snd (addCustomField s)) = currentMetadata s \<and>
   (\<exists>h. formOnly (s\<lparr>addFieldModalHidden := h\<rparr>) (snd (addCustomField s))) \<and>
   currentMetadata (snd (handleIdentificationResult r s)) = currentMetadata s \<and>
   formOnly s (snd (handleIdentificationResult r s)) \<and>
   (\<forall>ev. currentMetadata (handle e ev s) = currentMetadata s \<or> loadsImages ev \<or>
      (\<exists>i. ev = ClickDelete i)) \<and>
   (\<forall>ev. loadsImages ev \<longrightarrow>
      currentMetadata (handle e ev s) = currentMetadata s \<or>
      currentMetadata (handle e ev s) = [] \<or>
      (\<exists>j d m. imageReply e j = Reply d \<and> im_metadata d = Some m \<and>
         currentMetadata (handle e ev s) = m)) \<and>
   (\<forall>i. currentMetadata (handle e (ClickDelete i) s) = currentMetadata s \<or>
      (i < length (metadataContainer s) \<and> deleteBtn (metadataContainer s ! i) \<and>
       currentMetadata (handle e (ClickDelete i) s) =
         AList.delete (label (metadataContainer s ! i)) (currentMetadata s))) \<and>
   (\<forall>m. emitted (s\<lparr>currentMetadata := m\<rparr>) (saveMetadata e (s\<lparr>currentMetadata := m\<rparr>)) =
      emitted s (saveMetadata e s)) \<and>
   (\<exists>after. emitted s (saveMetadata e s) =
      Fetch (SaveMetadata (currentIndex s) (collectMetadata (metadataContainer s))) # after)"
proof -
  from saveMetadata_trace [of e s]
  have "\<exists>after. emitted s (saveMetadata e s) =
      Fetch (SaveMetadata (currentIndex s) (collectMetadata (metadataContainer s))) # after"
    by (auto simp: emitted_def)
  with handle_metadata [of e _ s] handle_loads_metadata [of _ e s] clickDelete_metadata [of _ s]
    saveMetadata_reads_form [where s = s and e = e]
    addCustomField_formOnly [of s] handleIdentificationResult_formOnly [of s r]
  show ?thesis by simp
qed

theorem currentMetadata_writers_witness:
  "loadsImages ClickFirst \<and>
   currentMetadata (handle server ClickFirst (initial\<lparr>totalImages := 2\<rparr>)) =
     [(''Species'', ''Kudu'')] \<and>
   currentMetadata (snd (addCustomField dialogFilled)) = [] \<and>
   metadataContainer (snd (addCustomField dialogFilled)) \<noteq> metadataContainer dialogFilled"
proof -
  let ?s = "initial\<lparr>totalImages := 2, currentIndex := 0\<rparr>"
  let ?md = "[(''Species'', ''Kudu'')]"
  let ?d = "\<lparr>im_error = None, im_dimensions = ''1920x1080'', im_size_mb = ''1.5'',
             im_index = currentIndex ?s,
             im_total = 2, im_filename = ''IMG_0001.JPG'', im_metadata = Some ?md\<rparr>"
  have r: "imageReply server (currentIndex ?s) = Reply ?d" by (simp add: server_def)
  have e: "\<not> truthy (im_error ?d)" by (simp add: truthy_def)
  have m: "?md = (case im_metadata ?d of None \<Rightarrow> [] | Some m \<Rightarrow> m)" by simp
  have h: "''hasOwnProperty'' \<notin> fst ` set ?md" by simp
  have "handle server ClickFirst (initial\<lparr>totalImages := 2\<rparr>) = loadCurrentImage server ?s"
    by (simp add: navigateToImage_def)
  then have 1: "currentMetadata (handle server ClickFirst (initial\<lparr>totalImages := 2\<rparr>)) = ?md"
    by (simp only: loadCurrentImage_loaded(2) [OF r e m h])
  have d: "currentMetadata dialogFilled = []"
    by (simp add: dialogFilled_def rendered_eq initial_def)
  from currentMetadata_writers [of dialogFilled None server]
  have 2: "currentMetadata (snd (addCustomField dialogFilled)) = []" by (simp add: d)
  have 3: "metadataContainer (snd (addCustomField dialogFilled)) \<noteq> metadataContainer dialogFilled"
    using addCustomField_fresh(1) [of dialogFilled "''Species''" "''Kudu''"]
    by (simp add: dialogFilled_def rendered_eq initial_def trim_names)
  from 1 2 3 show ?thesis by simp
qed

end
